theory Spec2Isabelle
  imports Main "HOL-Library.Word" "HOL-Library.Product_Lexorder"
begin

section \<open>The APK generator of Evil-Droid\<close>

text \<open>
  A shallow embedding of \<^verbatim>\<open>src/generate_apk.py\<close>: the placeholder bytecode container
  with its Adler-32 checksum, the bytecode acquisition cascade, the resource compiler
  adapter, the archive assembler, the signing and alignment stages, and the entry point
  \<^verbatim>\<open>main\<close> with its validation of the package identifier.
\<close>

subsection \<open>Bytes and the rolling checksum\<close>

type_synonym byte = "8 word"

text \<open>
  \<^verbatim>\<open>zlib.adler32\<close> is a library function: two sums modulo 65521 over the bytes,
  \<open>a\<close> starting at 1 and \<open>b\<close> at 0, combined as \<open>b * 65536 + a\<close>.
\<close>

fun adler32_loop :: "nat \<Rightarrow> nat \<Rightarrow> byte list \<Rightarrow> nat" where
  "adler32_loop a b [] = b * 65536 + a"
| "adler32_loop a b (x # xs) =
     adler32_loop ((a + unat x) mod 65521) ((b + (a + unat x) mod 65521) mod 65521) xs"

definition adler32 :: "byte list \<Rightarrow> nat" where
  "adler32 bs = adler32_loop 1 0 bs"

text \<open>\<^verbatim>\<open>n.to_bytes(4, 'little')\<close> and its inverse \<^verbatim>\<open>int.from_bytes(bs, 'little')\<close>.\<close>

definition to_bytes4_little :: "nat \<Rightarrow> byte list" where
  "to_bytes4_little n =
     [of_nat (n mod 256), of_nat (n div 256 mod 256),
      of_nat (n div 65536 mod 256), of_nat (n div 16777216 mod 256)]"

fun from_bytes_little :: "byte list \<Rightarrow> nat" where
  "from_bytes_little [] = 0"
| "from_bytes_little (x # xs) = unat x + 256 * from_bytes_little xs"

subsection \<open>The Binary Container Builder\<close>

text \<open>The class constant \<^verbatim>\<open>MINIMAL_DEX_HEADER\<close>: the magic and the version.\<close>

definition MINIMAL_DEX_HEADER :: "byte list" where
  "MINIMAL_DEX_HEADER = [0x64, 0x65, 0x78, 0x0a, 0x30, 0x33, 0x35, 0x00]"

text \<open>The literal \<^verbatim>\<open>dex_data\<close> of \<^verbatim>\<open>_write_minimal_dex_placeholder\<close>, field by field.\<close>

definition dex_data_initial :: "byte list" where
  "dex_data_initial =
     [0x64, 0x65, 0x78, 0x0a,
      0x30, 0x33, 0x35, 0x00,
      0x00, 0x00, 0x00, 0x00,
      0x00, 0x00, 0x00, 0x00, 0x00, 0x00, 0x00, 0x00,
      0x00, 0x00, 0x00, 0x00, 0x00, 0x00, 0x00, 0x00,
      0x00, 0x00, 0x00, 0x00,
      0x70, 0x00, 0x00, 0x00,
      0x70, 0x00, 0x00, 0x00,
      0x78, 0x56, 0x34, 0x12,
      0x00, 0x00, 0x00, 0x00,
      0x00, 0x00, 0x00, 0x00,
      0x00, 0x00, 0x00, 0x00,
      0x00, 0x00, 0x00, 0x00,
      0x00, 0x00, 0x00, 0x00,
      0x00, 0x00, 0x00, 0x00,
      0x00, 0x00, 0x00, 0x00,
      0x00, 0x00, 0x00, 0x00,
      0x00, 0x00, 0x00, 0x00,
      0x00, 0x00, 0x00, 0x00,
      0x00, 0x00, 0x00, 0x00,
      0x00, 0x00, 0x00, 0x00,
      0x00, 0x00, 0x00, 0x00,
      0x00, 0x00, 0x00, 0x00,
      0x00, 0x00, 0x00, 0x00,
      0x00, 0x00, 0x00, 0x00,
      0x00, 0x00, 0x00, 0x00]"

text \<open>
  The bytes that \<^verbatim>\<open>_write_minimal_dex_placeholder\<close> writes: the checksum of
  \<^verbatim>\<open>dex_data[12:]\<close>, masked to 32 bits, replaces \<^verbatim>\<open>dex_data[8:12]\<close>.
\<close>

definition minimal_dex_placeholder :: "byte list" where
  "minimal_dex_placeholder =
     (let dex_data = dex_data_initial;
          checksum = adler32 (drop 12 dex_data) mod 4294967296
      in take 8 dex_data @ to_bytes4_little checksum @ drop 12 dex_data)"

subsection \<open>Files, archives and the environment of a run\<close>

text \<open>
  The content of a file: raw bytes, text, or a zip archive as the list of its members in
  the order of the central directory (\<^verbatim>\<open>namelist()\<close>); a member holds the content of the
  file it was made from. Compression and time stamps are not modelled: two files are
  byte-identical when their contents are equal.
\<close>

datatype fdata = Blob "byte list" | Text string | Zip "(string \<times> fdata) list"

text \<open>
  The files of the working tree (the \<^verbatim>\<open>TemporaryDirectory\<close> of \<^verbatim>\<open>generate\<close>), by the
  relative path the source gives each:
  \<^verbatim>\<open>classes.dex\<close>, \<^verbatim>\<open>smali/<package path>/MainActivity.smali\<close>, the class files under
  \<^verbatim>\<open>classes/\<close>, \<^verbatim>\<open>temp_apk/smali/<package path>/MainActivity.smali\<close>, \<^verbatim>\<open>temp_apk/apktool.yml\<close>,
  \<^verbatim>\<open>temp_apk/AndroidManifest.xml\<close>, \<^verbatim>\<open>temp_apk/res/values/strings.xml\<close>, \<^verbatim>\<open>built.apk\<close>,
  \<^verbatim>\<open>res/values/strings.xml\<close>, \<^verbatim>\<open>AndroidManifest.xml\<close>, \<^verbatim>\<open>resources.apk\<close>, \<^verbatim>\<open>unsigned.apk\<close>.
\<close>

datatype wfile =
    ClassesDex | SmaliSource | ClassFiles
  | TempSmali | TempApktoolYml | TempManifest | TempStrings | BuiltApk
  | StringsXml | ManifestXml | ResourcesApk | UnsignedApk

text \<open>
  The places the program writes: the working tree, the key store
  \<^verbatim>\<open>~/.android/debug.keystore\<close>, and the final artifact \<^verbatim>\<open>output_dir/<app_name>.apk\<close>.
  The working tree is a fresh directory, so its files are none of the other two.
\<close>

datatype loc = Work wfile | Keystore | FinalApk

type_synonym filesystem = "loc \<Rightarrow> fdata option"

text \<open>
  The external commands the program starts with \<^verbatim>\<open>subprocess.run\<close>: \<^verbatim>\<open>javac\<close>, \<^verbatim>\<open>d8\<close>,
  \<^verbatim>\<open>dx\<close>, \<^verbatim>\<open>smali assemble\<close>, \<^verbatim>\<open>smali a\<close>, \<^verbatim>\<open>java -jar apktool.jar b\<close>, \<^verbatim>\<open>aapt package\<close>,
  \<^verbatim>\<open>keytool -genkey\<close>, \<^verbatim>\<open>jarsigner\<close> and \<^verbatim>\<open>zipalign\<close>.
\<close>

datatype cmd =
  Javac | D8 | Dx | SmaliAssemble | SmaliA | Apktool | Aapt | Keytool | Jarsigner | Zipalign

text \<open>
  How a call of \<^verbatim>\<open>subprocess.run\<close> ends: it raises (\<^verbatim>\<open>FileNotFoundError\<close> for a missing
  tool, \<^verbatim>\<open>TimeoutExpired\<close>), or the process exits with a return code.
\<close>

datatype status = Raised | Exited int

text \<open>
  The operations on the file system that the program performs outside every \<^verbatim>\<open>try\<close>,
  so that an \<^verbatim>\<open>OSError\<close> of theirs (a missing or unwritable directory, a name that is
  too long, a refused permission) leaves \<^verbatim>\<open>generate\<close> and ends the process: making the
  output directory (\<^verbatim>\<open>__init__\<close>), making the working tree, listing a \<^verbatim>\<open>platforms\<close>
  directory, making the directory of a file and writing the file, finding the home
  directory and making the directory of the key store, and removing the old key store.
\<close>

datatype fsop =
    MakeOutputDir | MakeTempDir | ListDir string | WriteFile loc
  | PrepareKeystoreDir | UnlinkKeystore

text \<open>
  Everything outside the program is a parameter. \<open>run c fs\<close> is what command \<open>c\<close> does
  when started on the files \<open>fs\<close>: how the call ends, and the content it leaves at its
  output path (\<open>None\<close>: it writes nothing there). \<open>which\<close> is \<^verbatim>\<open>shutil.which\<close> as a
  truth value. \<open>path_exists\<close>, \<open>iterdir\<close>, \<open>environ\<close>, \<open>home\<close>, \<open>script_dir\<close> and \<open>cwd\<close>
  are the view of the installed system that the searches for \<^verbatim>\<open>android.jar\<close> and
  \<^verbatim>\<open>apktool.jar\<close> read. \<open>py_int\<close> is the builtin \<^verbatim>\<open>int\<close> on strings (\<open>None\<close> for
  \<^verbatim>\<open>ValueError\<close>), and \<open>isalnum_beyond_ascii\<close> is the verdict of \<^verbatim>\<open>str.isalnum\<close> on the
  characters that are not ASCII. \<open>os_error op\<close> says that the operating system refuses
  the operation \<open>op\<close> in this run, which raises \<^verbatim>\<open>OSError\<close>; a probe with
  \<^verbatim>\<open>Path.exists\<close> is taken not to raise.
\<close>

record env =
  run :: "cmd \<Rightarrow> filesystem \<Rightarrow> status \<times> fdata option"
  which :: "string \<Rightarrow> bool"
  path_exists :: "string \<Rightarrow> bool"
  iterdir :: "string \<Rightarrow> string list"
  environ :: "string \<Rightarrow> string option"
  home :: string
  script_dir :: string
  cwd :: string
  py_int :: "string \<Rightarrow> int option"
  isalnum_beyond_ascii :: "char \<Rightarrow> bool"
  os_error :: "fsop \<Rightarrow> bool"

text \<open>
  The state a run changes: the files, whether the output directory has been made
  (\<^verbatim>\<open>__init__\<close>), and the external commands started so far, in order.
\<close>

record state =
  files :: filesystem
  output_dir_made :: bool
  calls :: "cmd list"

datatype error = BadZipFile | KeyError | IndexError | FileNotFoundError | OSError

definition file_exists :: "state \<Rightarrow> loc \<Rightarrow> bool" where
  "file_exists s l = (files s l \<noteq> None)"

definition write_file :: "loc \<Rightarrow> fdata \<Rightarrow> state \<Rightarrow> state" where
  "write_file l d s = s\<lparr>files := (files s)(l \<mapsto> d)\<rparr>"

definition unlink :: "loc \<Rightarrow> state \<Rightarrow> state" where
  "unlink l s = s\<lparr>files := (files s)(l := None)\<rparr>"

text \<open>
  Making the directory of a file and writing the file, outside a \<^verbatim>\<open>try\<close>: the result
  is the exception raised, if any, and the state.
\<close>

definition write_checked :: "env \<Rightarrow> loc \<Rightarrow> fdata \<Rightarrow> state \<Rightarrow> error option \<times> state" where
  "write_checked e l d s =
     (if os_error e (WriteFile l) then (Some OSError, s) else (None, write_file l d s))"

text \<open>Several such writes in a row; the first exception ends them.\<close>

fun write_all :: "env \<Rightarrow> (loc \<times> fdata) list \<Rightarrow> state \<Rightarrow> error option \<times> state" where
  "write_all e [] s = (None, s)"
| "write_all e (w # ws) s =
     (case write_checked e (fst w) (snd w) s of
        (Some err, s') \<Rightarrow> (Some err, s')
      | (None, s') \<Rightarrow> write_all e ws s')"

text \<open>
  \<^verbatim>\<open>subprocess.run\<close> of command \<open>c\<close> whose output path is \<open>out\<close>: the call is recorded,
  the command's output, if any, lands at \<open>out\<close>, and the status is returned.
\<close>

definition subprocess_run :: "env \<Rightarrow> cmd \<Rightarrow> loc \<Rightarrow> state \<Rightarrow> status \<times> state" where
  "subprocess_run e c out s =
     (case run e c (files s) of
        (st, None) \<Rightarrow> (st, s\<lparr>calls := calls s @ [c]\<rparr>)
      | (st, Some d) \<Rightarrow> (st, s\<lparr>files := (files s)(out \<mapsto> d), calls := calls s @ [c]\<rparr>))"

subsection \<open>Finding the platform archive\<close>

text \<open>\<^verbatim>\<open>name.replace('android-', '')\<close> and \<^verbatim>\<open>s.split('.')[0]\<close>.\<close>

fun remove_android_prefix :: "string \<Rightarrow> string" where
  "remove_android_prefix [] = []"
| "remove_android_prefix (c # cs) =
     (if take 8 (c # cs) = ''android-'' then remove_android_prefix (drop 7 cs)
      else c # remove_android_prefix cs)"

definition split_dot_first :: "string \<Rightarrow> string" where
  "split_dot_first s = takeWhile (\<lambda>c. c \<noteq> CHR ''.'') s"

text \<open>
  The scan of a \<^verbatim>\<open>platforms\<close> directory: every entry with an \<^verbatim>\<open>android.jar\<close> whose name
  gives an API level, sorted (stably) by the key \<^verbatim>\<open>(0 if 23 <= level <= 30 else 1, level)\<close>;
  the first one wins.
\<close>

definition platform_entry :: "env \<Rightarrow> string \<Rightarrow> string \<Rightarrow> (int \<times> string) list" where
  "platform_entry e dir name =
     (let jar_path = dir @ ''/'' @ name @ ''/android.jar'' in
      if path_exists e jar_path then
        (case py_int e (split_dot_first (remove_android_prefix name)) of
           Some api_level \<Rightarrow> [(api_level, jar_path)]
         | None \<Rightarrow> [])
      else [])"

definition stability_key :: "int \<times> string \<Rightarrow> nat \<times> int" where
  "stability_key x = (if 23 \<le> fst x \<and> fst x \<le> 30 then 0 else 1, fst x)"

definition scan_platforms :: "env \<Rightarrow> string \<Rightarrow> error + string option" where
  "scan_platforms e dir =
     (if os_error e (ListDir dir) then Inl OSError
      else
        (case sort_key stability_key (concat (map (platform_entry e dir) (iterdir e dir))) of
           [] \<Rightarrow> Inr None
         | p # ps \<Rightarrow> Inr (Some (snd p))))"

definition known_paths :: "string list" where
  "known_paths =
     [''/usr/lib/android-sdk/platforms/android-23/android.jar'',
      ''/usr/lib/android-sdk/platforms/android-28/android.jar'',
      ''/usr/lib/android-sdk/platforms/android-30/android.jar'',
      ''/usr/share/java/com.android.android-23.jar'',
      ''/usr/share/java/com.android.android-28.jar'',
      ''/usr/share/java/com.android.android-30.jar'']"

definition additional_paths :: "env \<Rightarrow> string list" where
  "additional_paths e =
     [home e @ ''/Android/Sdk/platforms/android-28/android.jar'',
      home e @ ''/Android/Sdk/platforms/android-30/android.jar'',
      ''/opt/android-sdk/platforms/android-28/android.jar'',
      ''/opt/android-sdk/platforms/android-30/android.jar'']"

text \<open>\<^verbatim>\<open>os.environ.get('ANDROID_HOME') or os.environ.get('ANDROID_SDK_ROOT')\<close>.\<close>

definition android_home :: "env \<Rightarrow> string option" where
  "android_home e =
     (case environ e ''ANDROID_HOME'' of
        Some v \<Rightarrow> (if v \<noteq> [] then Some v else environ e ''ANDROID_SDK_ROOT'')
      | None \<Rightarrow> environ e ''ANDROID_SDK_ROOT'')"

definition find_in_additional_paths :: "env \<Rightarrow> string option" where
  "find_in_additional_paths e = find (path_exists e) (additional_paths e)"

definition find_in_android_home :: "env \<Rightarrow> error + string option" where
  "find_in_android_home e =
     (case android_home e of
        None \<Rightarrow> Inr (find_in_additional_paths e)
      | Some h \<Rightarrow>
          if h \<noteq> [] \<and> path_exists e (h @ ''/platforms'') then
            (case scan_platforms e (h @ ''/platforms'') of
               Inl err \<Rightarrow> Inl err
             | Inr (Some p) \<Rightarrow> Inr (Some p)
             | Inr None \<Rightarrow> Inr (find_in_additional_paths e))
          else Inr (find_in_additional_paths e))"

definition find_in_sdk_platforms :: "env \<Rightarrow> error + string option" where
  "find_in_sdk_platforms e =
     (if path_exists e ''/usr/lib/android-sdk/platforms'' then
        (case scan_platforms e ''/usr/lib/android-sdk/platforms'' of
           Inl err \<Rightarrow> Inl err
         | Inr (Some p) \<Rightarrow> Inr (Some p)
         | Inr None \<Rightarrow> find_in_android_home e)
      else find_in_android_home e)"

text \<open>
  \<^verbatim>\<open>_find_android_jar\<close>; listing a \<^verbatim>\<open>platforms\<close> directory is in no \<^verbatim>\<open>try\<close>, so its
  exception is the result.
\<close>

definition find_android_jar :: "env \<Rightarrow> error + string option" where
  "find_android_jar e =
     (case find (path_exists e) known_paths of
        Some p \<Rightarrow> Inr (Some p)
      | None \<Rightarrow> find_in_sdk_platforms e)"

subsection \<open>Generated texts\<close>

text \<open>
  The texts that \<^verbatim>\<open>_create_android_manifest\<close>, \<^verbatim>\<open>_create_strings_xml\<close>,
  \<^verbatim>\<open>_create_minimal_dex\<close> and \<^verbatim>\<open>_create_prebuilt_dex\<close> render, line by line.
\<close>

definition create_android_manifest :: "string \<Rightarrow> string \<Rightarrow> string" where
  \<open>create_android_manifest package_name app_name =
        ''<?xml version="1.0" encoding="utf-8"?>\<newline>''
      @ ''<manifest xmlns:android="http://schemas.android.com/apk/res/android"\<newline>''
      @ ''    package="'' @ package_name @ ''"\<newline>''
      @ ''    android:versionCode="1"\<newline>''
      @ ''    android:versionName="1.0">\<newline>''
      @ ''\<newline>''
      @ ''    <uses-sdk\<newline>''
      @ ''        android:minSdkVersion="16"\<newline>''
      @ ''        android:targetSdkVersion="28" />\<newline>''
      @ ''\<newline>''
      @ ''    <uses-permission android:name="android.permission.INTERNET" />\<newline>''
      @ ''\<newline>''
      @ ''    <application\<newline>''
      @ ''        android:label="'' @ app_name @ ''"\<newline>''
      @ ''        android:allowBackup="true">\<newline>''
      @ ''\<newline>''
      @ ''        <activity\<newline>''
      @ ''            android:name=".MainActivity"\<newline>''
      @ ''            android:label="'' @ app_name @ ''"\<newline>''
      @ ''            android:exported="true">\<newline>''
      @ ''            <intent-filter>\<newline>''
      @ ''                <action android:name="android.intent.action.MAIN" />\<newline>''
      @ ''                <category android:name="android.intent.category.LAUNCHER" />\<newline>''
      @ ''            </intent-filter>\<newline>''
      @ ''        </activity>\<newline>''
      @ ''\<newline>''
      @ ''    </application>\<newline>''
      @ ''</manifest>''\<close>

definition create_strings_xml :: "string \<Rightarrow> string" where
  \<open>create_strings_xml app_name =
        ''<?xml version="1.0" encoding="utf-8"?>\<newline>''
      @ ''<resources>\<newline>''
      @ ''    <string name="app_name">'' @ app_name @ ''</string>\<newline>''
      @ ''</resources>''\<close>

definition smali_code_primary :: "string \<Rightarrow> string \<Rightarrow> string" where
  \<open>smali_code_primary package_path app_name =
        ''.class public L'' @ package_path @ ''/MainActivity;\<newline>''
      @ ''.super Landroid/app/Activity;\<newline>''
      @ ''.source "MainActivity.java"\<newline>''
      @ ''\<newline>''
      @ ''# Default constructor\<newline>''
      @ ''.method public constructor <init>()V\<newline>''
      @ ''    .registers 1\<newline>''
      @ ''\<newline>''
      @ ''    invoke-direct {p0}, Landroid/app/Activity;-><init>()V\<newline>''
      @ ''\<newline>''
      @ ''    return-void\<newline>''
      @ ''.end method\<newline>''
      @ ''\<newline>''
      @ ''# onCreate method - called when Activity is created\<newline>''
      @ ''.method protected onCreate(Landroid/os/Bundle;)V\<newline>''
      @ ''    .registers 5\<newline>''
      @ ''    .param p1, "savedInstanceState"    # Landroid/os/Bundle;\<newline>''
      @ ''\<newline>''
      @ ''    # Call super.onCreate()\<newline>''
      @ ''    invoke-super {p0, p1}, Landroid/app/Activity;->onCreate(Landroid/os/Bundle;)V\<newline>''
      @ ''\<newline>''
      @ ''    # Create a new TextView\<newline>''
      @ ''    new-instance v0, Landroid/widget/TextView;\<newline>''
      @ ''    invoke-direct {v0, p0}, Landroid/widget/TextView;-><init>(Landroid/content/Context;)V\<newline>''
      @ ''\<newline>''
      @ ''    # Set the text content\<newline>''
      @ ''    const-string v1, "'' @ app_name @ [CHR 0x5C] @ ''n'' @ [CHR 0x5C] @ ''nWelcome to Evil-Droid Framework'' @ [CHR 0x5C] @ ''n'' @ [CHR 0x5C] @ ''nThis is a demonstration APK'' @ [CHR 0x5C] @ ''ngenerated for educational purposes."\<newline>''
      @ ''    invoke-virtual {v0, v1}, Landroid/widget/TextView;->setText(Ljava/lang/CharSequence;)V\<newline>''
      @ ''\<newline>''
      @ ''    # Set text size to 20sp\<newline>''
      @ ''    const/high16 v1, 0x41a00000    # 20.0f\<newline>''
      @ ''    invoke-virtual {v0, v1}, Landroid/widget/TextView;->setTextSize(F)V\<newline>''
      @ ''\<newline>''
      @ ''    # Set gravity to CENTER (0x11)\<newline>''
      @ ''    const/16 v1, 0x11\<newline>''
      @ ''    invoke-virtual {v0, v1}, Landroid/widget/TextView;->setGravity(I)V\<newline>''
      @ ''\<newline>''
      @ ''    # Set text color to BLACK (0xff000000)\<newline>''
      @ ''    const v1, -0x1000000\<newline>''
      @ ''    invoke-virtual {v0, v1}, Landroid/widget/TextView;->setTextColor(I)V\<newline>''
      @ ''\<newline>''
      @ ''    # Set background color to WHITE (0xffffffff)\<newline>''
      @ ''    const/4 v1, -0x1\<newline>''
      @ ''    invoke-virtual {v0, v1}, Landroid/widget/TextView;->setBackgroundColor(I)V\<newline>''
      @ ''\<newline>''
      @ ''    # Set padding (50 pixels on all sides)\<newline>''
      @ ''    const/16 v1, 0x32\<newline>''
      @ ''    invoke-virtual {v0, v1, v1, v1, v1}, Landroid/widget/TextView;->setPadding(IIII)V\<newline>''
      @ ''\<newline>''
      @ ''    # Set the TextView as the content view\<newline>''
      @ ''    invoke-virtual {p0, v0}, L'' @ package_path @ ''/MainActivity;->setContentView(Landroid/view/View;)V\<newline>''
      @ ''\<newline>''
      @ ''    return-void\<newline>''
      @ ''.end method\<newline>''\<close>

definition smali_code_prebuilt :: "string \<Rightarrow> string \<Rightarrow> string" where
  \<open>smali_code_prebuilt package_path app_name =
        ''.class public L'' @ package_path @ ''/MainActivity;\<newline>''
      @ ''.super Landroid/app/Activity;\<newline>''
      @ ''\<newline>''
      @ ''.method public constructor <init>()V\<newline>''
      @ ''    .registers 1\<newline>''
      @ ''    invoke-direct {p0}, Landroid/app/Activity;-><init>()V\<newline>''
      @ ''    return-void\<newline>''
      @ ''.end method\<newline>''
      @ ''\<newline>''
      @ ''.method protected onCreate(Landroid/os/Bundle;)V\<newline>''
      @ ''    .registers 4\<newline>''
      @ ''\<newline>''
      @ ''    invoke-super {p0, p1}, Landroid/app/Activity;->onCreate(Landroid/os/Bundle;)V\<newline>''
      @ ''\<newline>''
      @ ''    new-instance v0, Landroid/widget/TextView;\<newline>''
      @ ''    invoke-direct {v0, p0}, Landroid/widget/TextView;-><init>(Landroid/content/Context;)V\<newline>''
      @ ''\<newline>''
      @ ''    const-string v1, "'' @ app_name @ [CHR 0x5C] @ ''n'' @ [CHR 0x5C] @ ''nWelcome to Evil-Droid Framework'' @ [CHR 0x5C] @ ''n'' @ [CHR 0x5C] @ ''nThis is a demonstration APK'' @ [CHR 0x5C] @ ''ngenerated for educational purposes."\<newline>''
      @ ''    invoke-virtual {v0, v1}, Landroid/widget/TextView;->setText(Ljava/lang/CharSequence;)V\<newline>''
      @ ''\<newline>''
      @ ''    const/high16 v1, 0x41a00000\<newline>''
      @ ''    invoke-virtual {v0, v1}, Landroid/widget/TextView;->setTextSize(F)V\<newline>''
      @ ''\<newline>''
      @ ''    const/16 v1, 0x11\<newline>''
      @ ''    invoke-virtual {v0, v1}, Landroid/widget/TextView;->setGravity(I)V\<newline>''
      @ ''\<newline>''
      @ ''    invoke-virtual {p0, v0}, L'' @ package_path @ ''/MainActivity;->setContentView(Landroid/view/View;)V\<newline>''
      @ ''\<newline>''
      @ ''    return-void\<newline>''
      @ ''.end method\<newline>''\<close>

definition apktool_yml :: "string" where
  \<open>apktool_yml =
        ''version: 2.2.4\<newline>''
      @ ''apkFileName: temp.apk\<newline>''
      @ ''isFrameworkApk: false\<newline>''
      @ ''usesFramework:\<newline>''
      @ ''  ids:\<newline>''
      @ ''  - 1\<newline>''
      @ ''sdkInfo:\<newline>''
      @ ''  minSdkVersion: '' @ [CHR 0x27] @ ''16'' @ [CHR 0x27] @ ''\<newline>''
      @ ''  targetSdkVersion: '' @ [CHR 0x27] @ ''28'' @ [CHR 0x27] @ ''\<newline>''
      @ ''packageInfo:\<newline>''
      @ ''  renameManifestPackage: null\<newline>''
      @ ''  forcedPackageId: '' @ [CHR 0x27] @ ''127'' @ [CHR 0x27] @ ''\<newline>''
      @ ''versionInfo:\<newline>''
      @ ''  versionCode: '' @ [CHR 0x27] @ ''1'' @ [CHR 0x27] @ ''\<newline>''
      @ ''  versionName: '' @ [CHR 0x27] @ ''1.0'' @ [CHR 0x27] @ ''\<newline>''
      @ ''compressionType: false\<newline>''
      @ ''sharedLibrary: false\<newline>''
      @ ''sparseResources: false\<newline>''\<close>

subsection \<open>Bytecode acquisition\<close>

text \<open>\<^verbatim>\<open>package_name.replace('.', '/')\<close>.\<close>

definition package_path_of :: "string \<Rightarrow> string" where
  "package_path_of package_name = map (\<lambda>c. if c = CHR ''.'' then CHR ''/'' else c) package_name"

text \<open>
  \<^verbatim>\<open>_compile_java_to_dex\<close>: the platform archive, the directory for the class files,
  then \<^verbatim>\<open>javac\<close> (a raised call or a return code other than 0 gives \<^verbatim>\<open>None\<close>), then
  \<^verbatim>\<open>d8\<close> and \<^verbatim>\<open>dx\<close>, each judged by whether \<^verbatim>\<open>classes.dex\<close> exists afterwards.
\<close>

definition dx_convert :: "env \<Rightarrow> state \<Rightarrow> loc option \<times> state" where
  "dx_convert e s =
     (if which e ''dx'' then
        (case subprocess_run e Dx (Work ClassesDex) s of
           (Raised, s') \<Rightarrow> (None, s')
         | (Exited rc, s') \<Rightarrow>
             if file_exists s' (Work ClassesDex) then (Some (Work ClassesDex), s')
             else (None, s'))
      else (None, s))"

definition d8_convert :: "env \<Rightarrow> state \<Rightarrow> loc option \<times> state" where
  "d8_convert e s =
     (if which e ''d8'' then
        (case subprocess_run e D8 (Work ClassesDex) s of
           (Raised, s') \<Rightarrow> dx_convert e s'
         | (Exited rc, s') \<Rightarrow>
             if file_exists s' (Work ClassesDex) then (Some (Work ClassesDex), s')
             else dx_convert e s')
      else dx_convert e s)"

definition compile_java_to_dex :: "env \<Rightarrow> state \<Rightarrow> (error + loc option) \<times> state" where
  "compile_java_to_dex e s =
     (case find_android_jar e of
        Inl err \<Rightarrow> (Inl err, s)
      | Inr None \<Rightarrow> (Inr None, s)
      | Inr (Some android_jar) \<Rightarrow>
          if os_error e (WriteFile (Work ClassFiles)) then (Inl OSError, s)
          else
            (case subprocess_run e Javac (Work ClassFiles) s of
               (Raised, s') \<Rightarrow> (Inr None, s')
             | (Exited rc, s') \<Rightarrow>
                 if rc \<noteq> 0 then (Inr None, s')
                 else (case d8_convert e s' of (r, s'') \<Rightarrow> (Inr r, s''))))"

text \<open>
  \<^verbatim>\<open>_write_minimal_dex_placeholder\<close> writes the placeholder to \<^verbatim>\<open>classes.dex\<close>, in no
  \<^verbatim>\<open>try\<close>.
\<close>

definition write_minimal_dex_placeholder :: "env \<Rightarrow> state \<Rightarrow> error option \<times> state" where
  "write_minimal_dex_placeholder e s =
     write_checked e (Work ClassesDex) (Blob minimal_dex_placeholder) s"

text \<open>
  Reading a zip archive: \<^verbatim>\<open>namelist()\<close> lists the member names in order, and
  \<^verbatim>\<open>read(name)\<close> and \<^verbatim>\<open>extract(name)\<close> take the last member of that name.
\<close>

definition namelist :: "(string \<times> fdata) list \<Rightarrow> string list" where
  "namelist ms = map fst ms"

definition zip_read :: "(string \<times> fdata) list \<Rightarrow> string \<Rightarrow> fdata option" where
  "zip_read ms name = map_of (rev ms) name"

definition possible_apktool_paths :: "env \<Rightarrow> string list" where
  "possible_apktool_paths e =
     [script_dir e @ ''/tools/apktool.jar'', cwd e @ ''/tools/apktool.jar'']"

text \<open>
  \<^verbatim>\<open>_create_prebuilt_dex\<close>: with an \<^verbatim>\<open>apktool.jar\<close>, a small project is written (in no
  \<^verbatim>\<open>try\<close>) and built, and \<^verbatim>\<open>classes.dex\<close> is extracted from \<^verbatim>\<open>built.apk\<close>; every
  exception of the build and of the extraction is caught. Whatever does not return a
  file ends in the placeholder.
\<close>

definition create_prebuilt_dex ::
  "env \<Rightarrow> string \<Rightarrow> string \<Rightarrow> state \<Rightarrow> error option \<times> state" where
  "create_prebuilt_dex e package_name app_name s =
     (case find (path_exists e) (possible_apktool_paths e) of
        None \<Rightarrow> write_minimal_dex_placeholder e s
      | Some apktool_jar \<Rightarrow>
          (case write_all e
                  [(Work TempSmali,
                    Text (smali_code_prebuilt (package_path_of package_name) app_name)),
                   (Work TempApktoolYml, Text apktool_yml),
                   (Work TempManifest, Text (create_android_manifest package_name app_name)),
                   (Work TempStrings, Text (create_strings_xml app_name))] s of
             (Some err, s4) \<Rightarrow> (Some err, s4)
           | (None, s4) \<Rightarrow>
               (case subprocess_run e Apktool (Work BuiltApk) s4 of
                  (Raised, s5) \<Rightarrow> write_minimal_dex_placeholder e s5
                | (Exited rc, s5) \<Rightarrow>
                    (case files s5 (Work BuiltApk) of
                       None \<Rightarrow> write_minimal_dex_placeholder e s5
                     | Some (Zip ms) \<Rightarrow>
                         (case zip_read ms ''classes.dex'' of
                            Some d \<Rightarrow>
                              (case write_checked e (Work ClassesDex) d s5 of
                                 (None, s6) \<Rightarrow> (None, s6)
                               | (Some err, s6) \<Rightarrow> write_minimal_dex_placeholder e s6)
                          | None \<Rightarrow> write_minimal_dex_placeholder e s5)
                     | Some other \<Rightarrow> write_minimal_dex_placeholder e s5))))"

text \<open>
  \<^verbatim>\<open>_create_minimal_dex\<close>: the smali source is written (the directory and the file, in
  no \<^verbatim>\<open>try\<close>); with a \<^verbatim>\<open>smali\<close> tool, two invocation syntaxes are tried, each judged by
  whether \<^verbatim>\<open>classes.dex\<close> exists; a raised call, or no file after both, goes on to
  \<^verbatim>\<open>_create_prebuilt_dex\<close>. The path returned is always \<^verbatim>\<open>classes.dex\<close> of the working
  tree.
\<close>

definition create_minimal_dex ::
  "env \<Rightarrow> string \<Rightarrow> string \<Rightarrow> state \<Rightarrow> error option \<times> state" where
  "create_minimal_dex e package_name app_name s =
     (case write_checked e (Work SmaliSource)
             (Text (smali_code_primary (package_path_of package_name) app_name)) s of
        (Some err, s0) \<Rightarrow> (Some err, s0)
      | (None, s0) \<Rightarrow>
          if which e ''smali'' then
            (case subprocess_run e SmaliAssemble (Work ClassesDex) s0 of
               (Raised, s1) \<Rightarrow> create_prebuilt_dex e package_name app_name s1
             | (Exited rc, s1) \<Rightarrow>
                 if file_exists s1 (Work ClassesDex) then (None, s1)
                 else
                   (case subprocess_run e SmaliA (Work ClassesDex) s1 of
                      (Raised, s2) \<Rightarrow> create_prebuilt_dex e package_name app_name s2
                    | (Exited rc2, s2) \<Rightarrow>
                        if file_exists s2 (Work ClassesDex) then (None, s2)
                        else create_prebuilt_dex e package_name app_name s2))
          else create_prebuilt_dex e package_name app_name s0)"

subsection \<open>Resources\<close>

text \<open>
  \<^verbatim>\<open>_create_resources\<close>: the string resources and the manifest are written first (in no
  \<^verbatim>\<open>try\<close>), then the platform archive is looked for; without one, with a raised call of
  \<^verbatim>\<open>aapt\<close>, or with no \<^verbatim>\<open>resources.apk\<close> afterwards, the result is \<^verbatim>\<open>None\<close>.
\<close>

definition create_resources ::
  "env \<Rightarrow> string \<Rightarrow> string \<Rightarrow> state \<Rightarrow> (error + loc option) \<times> state" where
  "create_resources e package_name app_name s =
     (case write_all e
             [(Work StringsXml, Text (create_strings_xml app_name)),
              (Work ManifestXml, Text (create_android_manifest package_name app_name))] s of
        (Some err, s2) \<Rightarrow> (Inl err, s2)
      | (None, s2) \<Rightarrow>
          (case find_android_jar e of
             Inl err \<Rightarrow> (Inl err, s2)
           | Inr None \<Rightarrow> (Inr None, s2)
           | Inr (Some android_jar) \<Rightarrow>
               (case subprocess_run e Aapt (Work ResourcesApk) s2 of
                  (Raised, s3) \<Rightarrow> (Inr None, s3)
                | (Exited rc, s3) \<Rightarrow>
                    if file_exists s3 (Work ResourcesApk)
                    then (Inr (Some (Work ResourcesApk)), s3)
                    else (Inr None, s3))))"

subsection \<open>The archive assembler\<close>

text \<open>
  The loop over \<^verbatim>\<open>res_zf.namelist()\<close>: a name that the output archive does not hold yet
  is written with the bytes \<^verbatim>\<open>res_zf.read(name)\<close>; any other name is skipped.
  \<^verbatim>\<open>writestr\<close> looks at the last character of the name, so an empty name raises
  \<^verbatim>\<open>IndexError\<close>.
\<close>

fun merge_resources ::
  "(string \<times> fdata) list \<Rightarrow> string list \<Rightarrow> (string \<times> fdata) list
     \<Rightarrow> error + (string \<times> fdata) list" where
  "merge_resources res_zf [] zf = Inr zf"
| "merge_resources res_zf (name # names) zf =
     (if name \<notin> set (namelist zf) then
        (case zip_read res_zf name of
           None \<Rightarrow> Inl KeyError
         | Some d \<Rightarrow>
             if name = [] then Inl IndexError
             else merge_resources res_zf names (zf @ [(name, d)]))
      else merge_resources res_zf names zf)"

text \<open>
  The members of \<^verbatim>\<open>unsigned.apk\<close>, from the content of \<^verbatim>\<open>classes.dex\<close>, the content of
  the resource archive (\<open>None\<close> when \<^verbatim>\<open>resources_apk and resources_apk.exists()\<close> is
  false) and the manifest text. A resource archive that is no zip file raises
  \<^verbatim>\<open>BadZipFile\<close>.
\<close>

definition archive_members ::
  "fdata \<Rightarrow> fdata option \<Rightarrow> string \<Rightarrow> error + (string \<times> fdata) list" where
  "archive_members dex resources manifest =
     (let zf = [(''classes.dex'', dex)] in
      case resources of
        Some (Zip res_zf) \<Rightarrow> merge_resources res_zf (namelist res_zf) zf
      | Some other \<Rightarrow> Inl BadZipFile
      | None \<Rightarrow> Inr (zf @ [(''AndroidManifest.xml'', Text manifest)]))"

text \<open>
  Step 3 of \<^verbatim>\<open>generate\<close>: \<^verbatim>\<open>unsigned.apk\<close> is opened for writing, the bytecode file is
  added, then the resources or the manifest; none of it is in a \<^verbatim>\<open>try\<close>. The
  partial archive that an exception leaves behind is removed with the working tree when
  the exception leaves \<^verbatim>\<open>generate\<close>; here the state is then the one before the step.
\<close>

definition build_apk_structure ::
  "env \<Rightarrow> string \<Rightarrow> string \<Rightarrow> loc option \<Rightarrow> state \<Rightarrow> error option \<times> state" where
  "build_apk_structure e package_name app_name resources_apk s =
     (if os_error e (WriteFile (Work UnsignedApk)) then (Some OSError, s)
      else
        (case files s (Work ClassesDex) of
           None \<Rightarrow> (Some FileNotFoundError, s)
         | Some dex \<Rightarrow>
             (case archive_members dex
                     (case resources_apk of None \<Rightarrow> None | Some r \<Rightarrow> files s r)
                     (create_android_manifest package_name app_name) of
                Inl err \<Rightarrow> (Some err, s)
              | Inr ms \<Rightarrow> (None, write_file (Work UnsignedApk) (Zip ms) s))))"

subsection \<open>Signing and alignment\<close>

text \<open>
  The first lines of \<^verbatim>\<open>_sign_apk\<close>, in no \<^verbatim>\<open>try\<close>: the home directory is found and the
  directory of the key store is made, and an existing key store is removed.
\<close>

definition remove_old_keystore :: "env \<Rightarrow> state \<Rightarrow> error option \<times> state" where
  "remove_old_keystore e s =
     (if file_exists s Keystore then
        (if os_error e UnlinkKeystore then (Some OSError, s) else (None, unlink Keystore s))
      else (None, s))"

text \<open>
  \<^verbatim>\<open>_sign_apk\<close>: after that, \<^verbatim>\<open>keytool\<close> runs with \<^verbatim>\<open>check=True\<close> (a return code other
  than 0 raises), then \<^verbatim>\<open>jarsigner\<close> signs \<^verbatim>\<open>unsigned.apk\<close> in place; its return code is
  only reported. The exceptions of the two calls are caught.
\<close>

definition sign_apk :: "env \<Rightarrow> state \<Rightarrow> (error + bool) \<times> state" where
  "sign_apk e s =
     (if os_error e PrepareKeystoreDir then (Inl OSError, s)
      else
        (case remove_old_keystore e s of
           (Some err, s1) \<Rightarrow> (Inl err, s1)
         | (None, s1) \<Rightarrow>
             (case subprocess_run e Keytool Keystore s1 of
                (Raised, s2) \<Rightarrow> (Inr False, s2)
              | (Exited rc, s2) \<Rightarrow>
                  if rc \<noteq> 0 then (Inr False, s2)
                  else
                    (case subprocess_run e Jarsigner (Work UnsignedApk) s2 of
                       (Raised, s3) \<Rightarrow> (Inr False, s3)
                     | (Exited rc2, s3) \<Rightarrow> (Inr True, s3)))))"

text \<open>\<^verbatim>\<open>_align_apk\<close>: \<^verbatim>\<open>zipalign\<close> runs; the result is whether the output path exists.\<close>

definition align_apk :: "env \<Rightarrow> state \<Rightarrow> bool \<times> state" where
  "align_apk e s =
     (case subprocess_run e Zipalign FinalApk s of
        (Raised, s') \<Rightarrow> (False, s')
      | (Exited rc, s') \<Rightarrow> (file_exists s' FinalApk, s'))"

text \<open>
  \<^verbatim>\<open>shutil.copy\<close>, in no \<^verbatim>\<open>try\<close>: it raises when the source is missing and when the
  destination cannot be written.
\<close>

definition shutil_copy :: "env \<Rightarrow> loc \<Rightarrow> loc \<Rightarrow> state \<Rightarrow> error option \<times> state" where
  "shutil_copy e src dst s =
     (case files s src of
        None \<Rightarrow> (Some FileNotFoundError, s)
      | Some d \<Rightarrow> write_checked e dst d s)"

text \<open>Step 5 of \<^verbatim>\<open>generate\<close>: the copy of \<^verbatim>\<open>unsigned.apk\<close> when \<^verbatim>\<open>_align_apk\<close> is false.\<close>

definition align_stage :: "env \<Rightarrow> state \<Rightarrow> error option \<times> state" where
  "align_stage e s =
     (case align_apk e s of
        (aligned, s') \<Rightarrow>
          if \<not> aligned then shutil_copy e (Work UnsignedApk) FinalApk s' else (None, s'))"

text \<open>Steps 4 and 5 and the last check of \<^verbatim>\<open>generate\<close>, on the assembled archive.\<close>

definition sign_and_align :: "env \<Rightarrow> state \<Rightarrow> (error + loc option) \<times> state" where
  "sign_and_align e s =
     (case sign_apk e s of
        (Inl err, s1) \<Rightarrow> (Inl err, s1)
      | (Inr signing_ok, s1) \<Rightarrow>
          (case align_stage e s1 of
             (Some err, s2) \<Rightarrow> (Inl err, s2)
           | (None, s2) \<Rightarrow>
               (if file_exists s2 FinalApk then (Inr (Some FinalApk), s2)
                else (Inr None, s2))))"

subsection \<open>The pipeline and the entry point\<close>

text \<open>
  The working tree is empty when \<^verbatim>\<open>TemporaryDirectory\<close> makes it and is removed when
  the \<^verbatim>\<open>with\<close> block is left, by a return or by an exception.
\<close>

definition clear_work :: "state \<Rightarrow> state" where
  "clear_work s = s\<lparr>files := (\<lambda>l. case l of Work f \<Rightarrow> None | other \<Rightarrow> files s l)\<rparr>"

definition generate_in_work ::
  "env \<Rightarrow> string \<Rightarrow> string \<Rightarrow> state \<Rightarrow> (error + loc option) \<times> state" where
  "generate_in_work e package_name app_name s =
     (case create_minimal_dex e package_name app_name s of
        (Some err, s1) \<Rightarrow> (Inl err, s1)
      | (None, s1) \<Rightarrow>
          if \<not> file_exists s1 (Work ClassesDex) then (Inr None, s1)
          else
            (case create_resources e package_name app_name s1 of
               (Inl err, s2) \<Rightarrow> (Inl err, s2)
             | (Inr resources_apk, s2) \<Rightarrow>
                 (case build_apk_structure e package_name app_name resources_apk s2 of
                    (Some err, s3) \<Rightarrow> (Inl err, s3)
                  | (None, s3) \<Rightarrow> sign_and_align e s3)))"

definition generate ::
  "env \<Rightarrow> string \<Rightarrow> string \<Rightarrow> state \<Rightarrow> (error + loc option) \<times> state" where
  "generate e package_name app_name s =
     (if os_error e MakeTempDir then (Inl OSError, s)
      else
        (case generate_in_work e package_name app_name (clear_work s) of
           (r, s') \<Rightarrow> (r, clear_work s')))"

text \<open>
  \<^verbatim>\<open>str.isalnum\<close> on one character (on ASCII: a digit or a letter), and
  \<^verbatim>\<open>startswith\<close> and \<^verbatim>\<open>endswith\<close>.
\<close>

definition py_isalnum :: "env \<Rightarrow> char \<Rightarrow> bool" where
  "py_isalnum e c =
     (let n = (of_char c :: nat) in
      if n < 128 then (48 \<le> n \<and> n \<le> 57) \<or> (65 \<le> n \<and> n \<le> 90) \<or> (97 \<le> n \<and> n \<le> 122)
      else isalnum_beyond_ascii e c)"

definition startswith :: "string \<Rightarrow> string \<Rightarrow> bool" where
  "startswith s p = (take (length p) s = p)"

definition endswith :: "string \<Rightarrow> string \<Rightarrow> bool" where
  "endswith s p = (length p \<le> length s \<and> drop (length s - length p) s = p)"

text \<open>The two checks of \<^verbatim>\<open>main\<close> that end in \<^verbatim>\<open>sys.exit(1)\<close>.\<close>

definition package_rejected :: "env \<Rightarrow> string \<Rightarrow> bool" where
  "package_rejected e package =
     (if \<not> list_all (\<lambda>c. py_isalnum e c \<or> c = CHR ''.'') package then True
      else if startswith package ''.'' \<or> endswith package ''.'' then True
      else False)"

text \<open>\<^verbatim>\<open>APKGenerator.__init__\<close> makes the output directory.\<close>

definition init_generator :: "state \<Rightarrow> state" where
  "init_generator s = s\<lparr>output_dir_made := True\<rparr>"

text \<open>
  \<^verbatim>\<open>main\<close> after the parsing of the arguments, as the exit code of the process and the
  state it leaves. An exception that nothing catches (from \<^verbatim>\<open>__init__\<close> or from
  \<^verbatim>\<open>generate\<close>) ends the process with code 1.
\<close>

definition main :: "env \<Rightarrow> string \<Rightarrow> string \<Rightarrow> state \<Rightarrow> int \<times> state" where
  "main e name package s =
     (if package_rejected e package then (1, s)
      else if os_error e MakeOutputDir then (1, s)
      else
        (case generate e package name (init_generator s) of
           (Inr (Some p), s') \<Rightarrow> (0, s')
         | (Inr None, s') \<Rightarrow> (1, s')
         | (Inl err, s') \<Rightarrow> (1, s')))"

text \<open>
  The calls of the commands of the Compile strategy (\<^verbatim>\<open>javac\<close>, \<^verbatim>\<open>d8\<close>, \<^verbatim>\<open>dx\<close>) among
  the commands started so far.
\<close>

definition compile_calls :: "state \<Rightarrow> cmd list" where
  "compile_calls s = filter (\<lambda>c. c = Javac \<or> c = D8 \<or> c = Dx) (calls s)"

subsection \<open>Concrete environments and states\<close>

text \<open>
  A system with no tool at all: every \<^verbatim>\<open>subprocess.run\<close> raises, \<^verbatim>\<open>shutil.which\<close> finds
  nothing, and no platform archive and no \<^verbatim>\<open>apktool.jar\<close> exists. The operating system
  refuses no file operation.
\<close>

definition no_tools :: env where
  "no_tools =
     \<lparr>run = (\<lambda>c fs. (Raised, None)), which = (\<lambda>t. False), path_exists = (\<lambda>p. False),
      iterdir = (\<lambda>d. []), environ = (\<lambda>v. None), home = ''/root'',
      script_dir = ''/opt/Evil-Droid'', cwd = ''/root'', py_int = (\<lambda>s. None),
      isalnum_beyond_ascii = (\<lambda>c. False), os_error = (\<lambda>op. False)\<rparr>"

text \<open>
  The same system where the output path cannot be written: the application name is
  \<open>a/b\<close> and the output directory has no subdirectory \<open>a\<close>.
\<close>

definition unwritable_output :: env where
  "unwritable_output = no_tools\<lparr>os_error := (\<lambda>op. op = WriteFile FinalApk)\<rparr>"


text \<open>The system with a \<^verbatim>\<open>zipalign\<close> that exits with code 1 and writes nothing.\<close>

definition failing_aligner :: env where
  "failing_aligner =
     no_tools\<lparr>run := (\<lambda>c fs. if c = Zipalign then (Exited 1, None) else (Raised, None))\<rparr>"


text \<open>
  A system on which the Compile strategy would work: the platform archive of API level
  23 is installed, \<^verbatim>\<open>javac\<close> compiles and \<^verbatim>\<open>d8\<close> converts; nothing else is there.
\<close>

definition compile_ready :: env where
  "compile_ready =
     no_tools\<lparr>run := (\<lambda>c fs. if c = Javac then (Exited 0, Some (Blob [0xCA, 0xFE]))
                             else if c = D8 then (Exited 0, Some (Blob [0x64, 0x65, 0x78]))
                             else (Raised, None)),
              which := (\<lambda>t. t = ''d8''),
              path_exists :=
                (\<lambda>p. p = ''/usr/lib/android-sdk/platforms/android-23/android.jar'')\<rparr>"

definition empty_state :: state where
  "empty_state = \<lparr>files = (\<lambda>l. None), output_dir_made = False, calls = []\<rparr>"


text \<open>The state after the archive assembler, before signing.\<close>

definition assembled_state :: state where
  "assembled_state =
     write_file (Work UnsignedApk) (Zip [(''classes.dex'', Blob minimal_dex_placeholder)])
       empty_state"

text \<open>The same with the artifact of an earlier run at the output path.\<close>

definition rerun_state :: state where
  "rerun_state = write_file FinalApk (Zip [(''classes.dex'', Blob [])]) assembled_state"

text \<open>The same with a key store from an earlier run.\<close>

definition keyed_state :: state where
  "keyed_state = write_file Keystore (Blob [1]) assembled_state"

section \<open>Properties\<close>

subsection \<open>The placeholder of the Binary Container Builder\<close>

lemma length_dex_data_initial: "length dex_data_initial = 112"
  by (simp add: dex_data_initial_def)

lemma take8_dex_data_initial: "take 8 dex_data_initial = MINIMAL_DEX_HEADER"
  by (simp add: dex_data_initial_def MINIMAL_DEX_HEADER_def)

lemma adler32_dex_tail: "adler32 (drop 12 dex_data_initial) = 2437939701"
  by (simp add: dex_data_initial_def adler32_def)

lemma minimal_dex_placeholder_eq:
  "minimal_dex_placeholder =
     MINIMAL_DEX_HEADER @ [245, 1, 80, 145] @ drop 12 dex_data_initial"
  by (simp add: minimal_dex_placeholder_def Let_def adler32_dex_tail to_bytes4_little_def
      take8_dex_data_initial)

lemma length_MINIMAL_DEX_HEADER: "length MINIMAL_DEX_HEADER = 8"
  by (simp add: MINIMAL_DEX_HEADER_def)

text \<open>
  Claim C2. The placeholder written by the Binary Container Builder is exactly 112 bytes
  long, starts with the magic and version preamble, and is checksum self-consistent: the
  Adler-32 checksum of every byte after the checksum field (from offset 12 on) is the
  little-endian number stored in the four bytes at offset 8.
\<close>

theorem placeholder_checksum_consistent:
  "length minimal_dex_placeholder = 112
   \<and> take 8 minimal_dex_placeholder = MINIMAL_DEX_HEADER
   \<and> adler32 (drop 12 minimal_dex_placeholder)
       = from_bytes_little (take 4 (drop 8 minimal_dex_placeholder))"
  by (simp add: minimal_dex_placeholder_eq length_MINIMAL_DEX_HEADER
      length_dex_data_initial adler32_dex_tail)

subsection \<open>The archive assembler\<close>

lemma zip_read_member: "name \<in> set (namelist ms) \<Longrightarrow> \<exists>d. zip_read ms name = Some d"
proof -
  assume "name \<in> set (namelist ms)"
  then have "name \<in> fst ` set (rev ms)" by (simp add: namelist_def)
  then have "map_of (rev ms) name \<noteq> None" by (simp add: map_of_eq_None_iff)
  then show ?thesis by (auto simp: zip_read_def)
qed

lemma merge_resources_total:
  "set names \<subseteq> set (namelist res_zf) \<Longrightarrow> [] \<notin> set names \<Longrightarrow>
     \<exists>ms. merge_resources res_zf names zf = Inr ms"
proof (induction names arbitrary: zf)
  case Nil
  then show ?case by simp
next
  case (Cons name names)
  then obtain d where "zip_read res_zf name = Some d"
    using zip_read_member [of name res_zf] by auto
  with Cons show ?case by auto
qed

lemma merge_resources_extends:
  "merge_resources res_zf names zf = Inr ms \<Longrightarrow> distinct (namelist zf) \<Longrightarrow>
     distinct (namelist ms) \<and> (\<exists>ys. ms = zf @ ys)"
proof (induction names arbitrary: zf)
  case Nil
  then show ?case by simp
next
  case (Cons name names)
  show ?case
  proof (cases "name \<in> set (namelist zf)")
    case True
    with Cons show ?thesis by simp
  next
    case False
    with Cons.prems obtain d where d: "zip_read res_zf name = Some d"
      and m: "merge_resources res_zf names (zf @ [(name, d)]) = Inr ms"
      by (auto split: option.splits if_splits)
    from False Cons.prems have "distinct (namelist (zf @ [(name, d)]))"
      by (simp add: namelist_def)
    from Cons.IH [OF m this] show ?thesis by auto
  qed
qed

lemma zip_read_first_of_distinct:
  "distinct (namelist ((name, d) # ys)) \<Longrightarrow> zip_read ((name, d) # ys) name = Some d"
proof -
  assume "distinct (namelist ((name, d) # ys))"
  then have "name \<notin> fst ` set (rev ys)" by (simp add: namelist_def)
  then have "map_of (rev ys) name = None" by (simp add: map_of_eq_None_iff)
  then show ?thesis by (simp add: zip_read_def map_add_def)
qed

lemma archive_members_sound:
  assumes "archive_members dex resources manifest = Inr ms"
  shows "distinct (namelist ms) \<and> zip_read ms ''classes.dex'' = Some dex"
proof (cases resources)
  case None
  with assms have "ms = [(''classes.dex'', dex), (''AndroidManifest.xml'', Text manifest)]"
    by (simp add: archive_members_def)
  then show ?thesis by (simp add: namelist_def zip_read_def)
next
  case (Some r)
  with assms obtain res_zf where r: "r = Zip res_zf"
    by (cases r) (simp_all add: archive_members_def)
  with Some assms
  have m: "merge_resources res_zf (namelist res_zf) [(''classes.dex'', dex)] = Inr ms"
    by (simp add: archive_members_def)
  have "distinct (namelist [(''classes.dex'', dex)])" by (simp add: namelist_def)
  from merge_resources_extends [OF m this]
  obtain ys where d: "distinct (namelist ms)" and ms: "ms = (''classes.dex'', dex) # ys"
    by auto
  from d ms show ?thesis using zip_read_first_of_distinct [of "''classes.dex''" dex ys] by simp
qed

text \<open>
  Claim C5. The archive assembler never gives two members the same name, with or without
  a resource archive, and the member \<^verbatim>\<open>classes.dex\<close> of the output holds the bytes of
  the bytecode file, also when the resource archive has a member of that name. Without a
  resource archive, and on one that is a zip file with no empty member name, the
  assembler always returns.
\<close>

theorem archive_members_no_duplicates:
  "([] \<notin> set (namelist res_zf) \<longrightarrow>
      (\<exists>ms. archive_members dex (Some (Zip res_zf)) manifest = Inr ms))
   \<and> (\<exists>ms. archive_members dex None manifest = Inr ms)
   \<and> (\<forall>ms. archive_members dex resources manifest = Inr ms \<longrightarrow>
         distinct (namelist ms) \<and> zip_read ms ''classes.dex'' = Some dex)"
  using merge_resources_total [of "namelist res_zf" res_zf "[(''classes.dex'', dex)]"]
    archive_members_sound [of dex resources manifest]
  by (simp add: archive_members_def)

theorem archive_members_no_duplicates_witness:
  "[] \<notin> set (namelist [(''classes.dex'', Blob [1]), (''res/a'', Blob [2]),
                          (''res/a'', Blob [3])])
   \<and> archive_members (Blob [9])
      (Some (Zip [(''classes.dex'', Blob [1]), (''res/a'', Blob [2]), (''res/a'', Blob [3])]))
      ''m''
     = Inr [(''classes.dex'', Blob [9]), (''res/a'', Blob [3])]
   \<and> distinct (namelist [(''classes.dex'', Blob [9]), (''res/a'', Blob [3])])
   \<and> zip_read [(''classes.dex'', Blob [9]), (''res/a'', Blob [3])] ''classes.dex''
       = Some (Blob [9])"
proof -
  have ev: "archive_members (Blob [9])
      (Some (Zip [(''classes.dex'', Blob [1]), (''res/a'', Blob [2]), (''res/a'', Blob [3])]))
      ''m'' = Inr [(''classes.dex'', Blob [9]), (''res/a'', Blob [3])]"
    by (simp add: archive_members_def namelist_def zip_read_def)
  have ne: "[] \<notin> set (namelist [(''classes.dex'', Blob [1]), (''res/a'', Blob [2]),
                                    (''res/a'', Blob [3])])"
    by (simp add: namelist_def)
  from archive_members_no_duplicates [where dex = "Blob [9]" and manifest = "''m''"
      and res_zf = "[(''classes.dex'', Blob [1]), (''res/a'', Blob [2]), (''res/a'', Blob [3])]"
      and resources =
        "Some (Zip [(''classes.dex'', Blob [1]), (''res/a'', Blob [2]), (''res/a'', Blob [3])])"]
    ev ne
  show ?thesis by blast
qed

subsection \<open>Signing and alignment\<close>

lemma fst_subprocess_run: "fst (subprocess_run e c out s) = fst (run e c (files s))"
  by (simp add: subprocess_run_def split: prod.splits option.splits)

lemma files_subprocess_run_other:
  "l \<noteq> out \<Longrightarrow> files (snd (subprocess_run e c out s)) l = files s l"
  by (simp add: subprocess_run_def split: prod.splits option.splits)

lemma files_subprocess_run_out:
  "files (snd (subprocess_run e c out s)) out =
     (case snd (run e c (files s)) of None \<Rightarrow> files s out | Some d \<Rightarrow> Some d)"
  by (simp add: subprocess_run_def split: prod.splits option.splits)

lemma calls_subprocess_run: "calls (snd (subprocess_run e c out s)) = calls s @ [c]"
  by (simp add: subprocess_run_def split: prod.splits option.splits)

lemma files_write_file: "files (write_file l d s) = (files s)(l \<mapsto> d)"
  by (simp add: write_file_def)

lemma calls_write_file: "calls (write_file l d s) = calls s"
  by (simp add: write_file_def)



lemma files_write_checked_other:
  "l' \<noteq> l \<Longrightarrow> files (snd (write_checked e l d s)) l' = files s l'"
  by (simp add: write_checked_def files_write_file)

lemma calls_write_checked: "calls (snd (write_checked e l d s)) = calls s"
  by (simp add: write_checked_def calls_write_file)

lemma files_remove_old_keystore_other:
  "l \<noteq> Keystore \<Longrightarrow> files (snd (remove_old_keystore e s)) l = files s l"
  by (simp add: remove_old_keystore_def unlink_def)

lemma calls_remove_old_keystore: "calls (snd (remove_old_keystore e s)) = calls s"
  by (simp add: remove_old_keystore_def unlink_def)

lemma remove_old_keystore_ok:
  "\<not> os_error e UnlinkKeystore \<Longrightarrow>
   fst (remove_old_keystore e s) = None
   \<and> files (snd (remove_old_keystore e s)) = (files s)(Keystore := None)"
  by (auto simp: remove_old_keystore_def unlink_def file_exists_def)

lemma sign_apk_keeps_unsigned:
  assumes "files s (Work UnsignedApk) = Some a"
  shows "\<exists>a'. files (snd (sign_apk e s)) (Work UnsignedApk) = Some a'"
proof -
  let ?s1 = "snd (remove_old_keystore e s)"
  let ?s2 = "snd (subprocess_run e Keytool Keystore ?s1)"
  let ?s3 = "snd (subprocess_run e Jarsigner (Work UnsignedApk) ?s2)"
  have s1: "files ?s1 (Work UnsignedApk) = Some a"
    using assms by (simp add: files_remove_old_keystore_other)
  then have s2: "files ?s2 (Work UnsignedApk) = Some a"
    by (simp add: files_subprocess_run_other)
  then have s3: "\<exists>a'. files ?s3 (Work UnsignedApk) = Some a'"
    by (simp add: files_subprocess_run_out split: option.splits)
  show ?thesis
    unfolding sign_apk_def case_prod_beta
    using assms s1 s2 s3 by (simp split: option.splits status.splits)
qed

lemma align_apk_unfold:
  "align_apk e s =
     (case fst (subprocess_run e Zipalign FinalApk s) of
        Raised \<Rightarrow> (False, snd (subprocess_run e Zipalign FinalApk s))
      | Exited rc \<Rightarrow>
          (file_exists (snd (subprocess_run e Zipalign FinalApk s)) FinalApk,
           snd (subprocess_run e Zipalign FinalApk s)))"
  unfolding align_apk_def case_prod_beta by (rule refl)

lemma snd_align_apk: "snd (align_apk e s) = snd (subprocess_run e Zipalign FinalApk s)"
  by (simp add: align_apk_unfold split: status.splits)

lemma align_stage_unfold:
  "align_stage e s =
     (if \<not> fst (align_apk e s)
      then shutil_copy e (Work UnsignedApk) FinalApk (snd (subprocess_run e Zipalign FinalApk s))
      else (None, snd (subprocess_run e Zipalign FinalApk s)))"
  unfolding align_stage_def case_prod_beta snd_align_apk by (rule refl)

lemma align_stage_failed:
  assumes "files s (Work UnsignedApk) = Some a" and "fst (align_apk e s) = False"
  shows "align_stage e s
           = write_checked e FinalApk a (snd (subprocess_run e Zipalign FinalApk s))"
proof -
  have "files (snd (subprocess_run e Zipalign FinalApk s)) (Work UnsignedApk) = Some a"
    using assms(1) by (simp add: files_subprocess_run_other)
  then show ?thesis
    using assms(2) by (simp add: align_stage_unfold shutil_copy_def)
qed

lemma align_stage_succeeded:
  "fst (align_apk e s) \<Longrightarrow>
   align_stage e s = (None, snd (subprocess_run e Zipalign FinalApk s))"
  by (simp add: align_stage_unfold)

lemma align_apk_true_exists:
  "fst (align_apk e s) \<Longrightarrow> file_exists (snd (subprocess_run e Zipalign FinalApk s)) FinalApk"
  by (simp add: align_apk_unfold split: status.splits)


lemma align_stage_no_error_exists:
  assumes "files s (Work UnsignedApk) = Some a" and "fst (align_stage e s) = None"
  shows "file_exists (snd (align_stage e s)) FinalApk"
proof (cases "fst (align_apk e s)")
  case True
  then show ?thesis
    by (simp add: align_stage_succeeded align_apk_true_exists)
next
  case False
  with assms show ?thesis
    by (auto simp: align_stage_failed write_checked_def write_file_def file_exists_def
        split: if_splits)
qed

lemma minimal_dex_placeholder_nonempty: "minimal_dex_placeholder \<noteq> []"
  by (simp add: minimal_dex_placeholder_eq MINIMAL_DEX_HEADER_def)

lemma no_tools_run: "run no_tools c fs = (Raised, None)"
  by (simp add: no_tools_def)

lemma no_tools_os_error: "\<not> os_error no_tools op"
  by (simp add: no_tools_def)


text \<open>
  Claim C6. The alignment fallback law has the final artifact byte for byte equal to the
  pre-alignment archive whenever the aligner fails. The code breaks it on a rerun: with
  the artifact of an earlier run at the output path and a \<^verbatim>\<open>zipalign\<close> that exits with
  code 1 and writes nothing, \<^verbatim>\<open>_align_apk\<close> finds a file at the output path and returns
  true, no copy is made, and the earlier artifact, which is not the pre-alignment archive,
  stays the final artifact of a run that reports no error.
\<close>

theorem aligner_exit_code_ignored:
  "run failing_aligner Zipalign (files rerun_state) = (Exited 1, None)
   \<and> files rerun_state (Work UnsignedApk)
       = Some (Zip [(''classes.dex'', Blob minimal_dex_placeholder)])
   \<and> fst (align_apk failing_aligner rerun_state) = True
   \<and> fst (align_stage failing_aligner rerun_state) = None
   \<and> files (snd (align_stage failing_aligner rerun_state)) FinalApk
       = Some (Zip [(''classes.dex'', Blob [])])
   \<and> files (snd (align_stage failing_aligner rerun_state)) FinalApk
       \<noteq> files (snd (align_stage failing_aligner rerun_state)) (Work UnsignedApk)"
  by (simp add: align_stage_unfold align_apk_unfold subprocess_run_def failing_aligner_def
      no_tools_def rerun_state_def assembled_state_def empty_state_def write_file_def
      file_exists_def minimal_dex_placeholder_nonempty [symmetric])




text \<open>
  Claim C9. \<^verbatim>\<open>_sign_apk\<close> is not atomic: with a key store on disk (whose directory can
  be made and which can be removed), if \<^verbatim>\<open>keytool\<close> then fails (the call raises, or it
  exits with a code other than 0), \<^verbatim>\<open>_sign_apk\<close> returns false without calling the
  signer, and the old key store is gone: what is at its path is only what the failed
  \<^verbatim>\<open>keytool\<close> left there, so nothing when it wrote nothing.
\<close>

theorem sign_apk_not_atomic:
  assumes "files s Keystore = Some k"
      and "\<not> os_error e PrepareKeystoreDir" and "\<not> os_error e UnlinkKeystore"
      and "run e Keytool ((files s)(Keystore := None)) = (st, w)"
      and "st = Raised \<or> (\<exists>rc. st = Exited rc \<and> rc \<noteq> 0)"
  shows "fst (sign_apk e s) = Inr False
         \<and> files (snd (sign_apk e s)) Keystore = w
         \<and> (w = None \<longrightarrow> \<not> file_exists (snd (sign_apk e s)) Keystore)
         \<and> calls (snd (sign_apk e s)) = calls s @ [Keytool]"
proof -
  let ?s1 = "snd (remove_old_keystore e s)"
  let ?r = "subprocess_run e Keytool Keystore ?s1"
  note rm = remove_old_keystore_ok [OF assms(3), of s]
  have st: "fst ?r = st"
    using assms(4) rm by (simp add: fst_subprocess_run)
  have fs: "files (snd ?r) Keystore = w"
    using assms(4) rm by (simp add: files_subprocess_run_out split: option.splits)
  have cs: "calls (snd ?r) = calls s @ [Keytool]"
    by (simp add: calls_subprocess_run calls_remove_old_keystore)
  have res: "sign_apk e s = (Inr False, snd ?r)"
    unfolding sign_apk_def case_prod_beta
    using assms(2) assms(5) st rm by auto
  show ?thesis using fs cs by (simp add: res file_exists_def)
qed

theorem sign_apk_not_atomic_witness:
  "files keyed_state Keystore = Some (Blob [1])
   \<and> \<not> os_error no_tools PrepareKeystoreDir \<and> \<not> os_error no_tools UnlinkKeystore
   \<and> run no_tools Keytool ((files keyed_state)(Keystore := None)) = (Raised, None)
   \<and> fst (sign_apk no_tools keyed_state) = Inr False
   \<and> files (snd (sign_apk no_tools keyed_state)) Keystore = None
   \<and> \<not> file_exists (snd (sign_apk no_tools keyed_state)) Keystore
   \<and> calls (snd (sign_apk no_tools keyed_state)) = calls keyed_state @ [Keytool]"
proof -
  have a: "files keyed_state Keystore = Some (Blob [1])"
    by (simp add: keyed_state_def write_file_def)
  have b: "run no_tools Keytool ((files keyed_state)(Keystore := None)) = (Raised, None)"
    by (rule no_tools_run)
  from sign_apk_not_atomic [OF a no_tools_os_error no_tools_os_error b] a b no_tools_os_error
  show ?thesis by simp
qed

subsection \<open>The pipeline\<close>

lemma files_write_all_other:
  "l \<notin> fst ` set ws \<Longrightarrow> files (snd (write_all e ws s)) l = files s l"
proof (induction ws arbitrary: s)
  case Nil
  then show ?case by simp
next
  case (Cons w ws)
  then show ?case
    by (simp add: write_checked_def files_write_file)
qed

lemma calls_write_all: "calls (snd (write_all e ws s)) = calls s"
  by (induction ws arbitrary: s) (simp_all add: write_checked_def calls_write_file)

lemma write_all_ok:
  "\<forall>op. \<not> os_error e op \<Longrightarrow> fst (write_all e ws s) = None"
  by (induction ws arbitrary: s) (simp_all add: write_checked_def)

lemma placeholder_written:
  "fst (write_minimal_dex_placeholder e s) = None \<Longrightarrow>
   files (snd (write_minimal_dex_placeholder e s)) (Work ClassesDex)
     = Some (Blob minimal_dex_placeholder)"
  by (simp add: write_minimal_dex_placeholder_def write_checked_def files_write_file
      split: if_splits)

lemma placeholder_written_exists:
  "fst (write_minimal_dex_placeholder e s) = None \<Longrightarrow>
   file_exists (snd (write_minimal_dex_placeholder e s)) (Work ClassesDex)"
  by (simp add: placeholder_written file_exists_def)

lemma create_prebuilt_dex_exists_imp:
  "fst (create_prebuilt_dex e package_name app_name s) = None \<longrightarrow>
   file_exists (snd (create_prebuilt_dex e package_name app_name s)) (Work ClassesDex)"
  unfolding create_prebuilt_dex_def case_prod_beta
  by (simp del: write_all.simps
      add: placeholder_written write_checked_def files_write_file file_exists_def
      split: option.split status.split fdata.split)

lemma create_prebuilt_dex_exists:
  "fst (create_prebuilt_dex e package_name app_name s) = None \<Longrightarrow>
   file_exists (snd (create_prebuilt_dex e package_name app_name s)) (Work ClassesDex)"
  using create_prebuilt_dex_exists_imp by blast

lemma create_minimal_dex_exists_imp:
  "fst (create_minimal_dex e package_name app_name s) = None \<longrightarrow>
   file_exists (snd (create_minimal_dex e package_name app_name s)) (Work ClassesDex)"
  unfolding create_minimal_dex_def case_prod_beta
  by (simp add: create_prebuilt_dex_exists_imp split: option.split status.split)

lemma create_minimal_dex_exists:
  "fst (create_minimal_dex e package_name app_name s) = None \<Longrightarrow>
   file_exists (snd (create_minimal_dex e package_name app_name s)) (Work ClassesDex)"
  using create_minimal_dex_exists_imp by blast

lemma create_resources_keeps_dex:
  "files (snd (create_resources e package_name app_name s)) (Work ClassesDex)
     = files s (Work ClassesDex)"
  unfolding create_resources_def case_prod_beta
  by (simp add: files_subprocess_run_other files_write_all_other del: write_all.simps
      split: option.splits status.splits sum.splits)

lemma build_apk_structure_unsigned:
  "build_apk_structure e package_name app_name resources_apk s2 = (None, s3) \<Longrightarrow>
   \<exists>ms. files s3 (Work UnsignedApk) = Some (Zip ms)"
  by (auto simp: build_apk_structure_def files_write_file
      split: option.splits sum.splits if_splits)


lemma sign_and_align_cases:
  assumes "files s (Work UnsignedApk) = Some a"
  shows "(fst (sign_and_align e s) = Inr (Some FinalApk)
          \<and> file_exists (snd (sign_and_align e s)) FinalApk)
         \<or> (\<exists>err. fst (sign_and_align e s) = Inl err)"
proof (cases "fst (sign_apk e s)")
  case (Inl err)
  then show ?thesis
    unfolding sign_and_align_def case_prod_beta by simp
next
  case (Inr b)
  obtain a' where u: "files (snd (sign_apk e s)) (Work UnsignedApk) = Some a'"
    using sign_apk_keeps_unsigned [OF assms] by blast
  show ?thesis
  proof (cases "fst (align_stage e (snd (sign_apk e s)))")
    case None
    with Inr align_stage_no_error_exists [OF u None] show ?thesis
      unfolding sign_and_align_def case_prod_beta by simp
  next
    case (Some err)
    with Inr show ?thesis
      unfolding sign_and_align_def case_prod_beta by simp
  qed
qed


lemma generate_in_work_cases:
  "(fst (generate_in_work e package_name app_name s) = Inr (Some FinalApk)
    \<and> file_exists (snd (generate_in_work e package_name app_name s)) FinalApk)
   \<or> (\<exists>err. fst (generate_in_work e package_name app_name s) = Inl err)"
proof -
  let ?d = "create_minimal_dex e package_name app_name s"
  let ?r = "create_resources e package_name app_name (snd ?d)"
  show ?thesis
  proof (cases "fst ?d")
    case (Some err)
    then show ?thesis
      unfolding generate_in_work_def case_prod_beta by simp
  next
    case None
    then have d1: "file_exists (snd ?d) (Work ClassesDex)"
      by (rule create_minimal_dex_exists)
    show ?thesis
    proof (cases "fst ?r")
      case (Inl err)
      with None d1 show ?thesis
        unfolding generate_in_work_def case_prod_beta by simp
    next
      case (Inr resources_apk)
      let ?b = "build_apk_structure e package_name app_name resources_apk (snd ?r)"
      show ?thesis
      proof (cases "fst ?b")
        case (Some err)
        with None d1 Inr show ?thesis
          unfolding generate_in_work_def case_prod_beta by simp
      next
        case bn: None
        then have "?b = (None, snd ?b)" by (simp add: prod_eq_iff)
        then obtain ms where "files (snd ?b) (Work UnsignedApk) = Some (Zip ms)"
          using build_apk_structure_unsigned by blast
        from sign_and_align_cases [OF this, of e] None d1 Inr bn show ?thesis
          unfolding generate_in_work_def case_prod_beta by simp
      qed
    qed
  qed
qed

lemma files_clear_work_final: "files (clear_work s) FinalApk = files s FinalApk"
  by (simp add: clear_work_def)

lemma calls_clear_work: "calls (clear_work s) = calls s"
  by (simp add: clear_work_def)

lemma generate_cases:
  "(fst (generate e package_name app_name s) = Inr (Some FinalApk)
    \<and> file_exists (snd (generate e package_name app_name s)) FinalApk)
   \<or> (\<exists>err. fst (generate e package_name app_name s) = Inl err)"
  using generate_in_work_cases [of e package_name app_name "clear_work s"]
  unfolding generate_def case_prod_beta
  by (auto simp: file_exists_def files_clear_work_final)

lemma main_accepted:
  assumes "\<not> package_rejected e package" and "\<not> os_error e MakeOutputDir"
  shows "snd (main e name package s) = snd (generate e package name (init_generator s))
         \<and> (fst (main e name package s) = 0 \<longleftrightarrow>
              fst (generate e package name (init_generator s)) = Inr (Some FinalApk))
         \<and> (fst (main e name package s) = 1 \<longleftrightarrow>
              (\<exists>err. fst (generate e package name (init_generator s)) = Inl err))"
  using generate_cases [of e package name "init_generator s"] assms
  by (cases "generate e package name (init_generator s)") (auto simp: main_def)

lemma drop_last_char: "p \<noteq> [] \<Longrightarrow> drop (length p - Suc 0) p = [last p]"
  by (induction p) (auto simp: Suc_diff_le [symmetric] drop_Cons' )

lemma startswith_dot: "startswith p ''.'' \<longleftrightarrow> p \<noteq> [] \<and> hd p = CHR ''.''"
  by (cases p) (simp_all add: startswith_def)

lemma endswith_dot: "endswith p ''.'' \<longleftrightarrow> p \<noteq> [] \<and> last p = CHR ''.''"
proof (cases "p = []")
  case True
  then show ?thesis by (simp add: endswith_def)
next
  case False
  then have "Suc 0 \<le> length p" by (cases p) simp_all
  with False show ?thesis by (simp add: endswith_def drop_last_char)
qed

lemma package_rejected_iff:
  "package_rejected e package \<longleftrightarrow>
     (\<exists>c\<in>set package. \<not> py_isalnum e c \<and> c \<noteq> CHR ''.'')
     \<or> (package \<noteq> [] \<and> (hd package = CHR ''.'' \<or> last package = CHR ''.''))"
  by (auto simp: package_rejected_def list_all_iff startswith_dot endswith_dot)

lemma write_all_writable:
  "\<forall>w\<in>set ws. \<not> os_error e (WriteFile (fst w)) \<Longrightarrow> fst (write_all e ws s) = None"
  by (induction ws arbitrary: s) (simp_all add: write_checked_def)

lemma create_prebuilt_dex_no_tools:
  assumes "\<forall>c fs. run e c fs = (Raised, None)"
      and "\<forall>op. op \<noteq> WriteFile FinalApk \<longrightarrow> \<not> os_error e op"
  shows "fst (create_prebuilt_dex e package_name app_name s) = None
         \<and> files (snd (create_prebuilt_dex e package_name app_name s)) (Work ClassesDex)
             = Some (Blob minimal_dex_placeholder)"
  unfolding create_prebuilt_dex_def case_prod_beta
  by (simp del: write_all.simps
      add: write_all_writable fst_subprocess_run assms write_minimal_dex_placeholder_def
        write_checked_def files_write_file
      split: option.split)

lemma create_minimal_dex_no_tools:
  assumes "\<forall>c fs. run e c fs = (Raised, None)"
      and "\<forall>op. op \<noteq> WriteFile FinalApk \<longrightarrow> \<not> os_error e op"
  shows "fst (create_minimal_dex e package_name app_name s) = None
         \<and> files (snd (create_minimal_dex e package_name app_name s)) (Work ClassesDex)
             = Some (Blob minimal_dex_placeholder)"
  unfolding create_minimal_dex_def case_prod_beta
  by (simp add: write_checked_def fst_subprocess_run assms
      create_prebuilt_dex_no_tools [OF assms])

lemma scan_platforms_no_exception:
  "\<not> os_error e (ListDir dir) \<Longrightarrow> scan_platforms e dir \<noteq> Inl err"
  by (simp add: scan_platforms_def split: list.split)

lemma files_create_prebuilt_dex_final:
  "files (snd (create_prebuilt_dex e package_name app_name s)) FinalApk = files s FinalApk"
  unfolding create_prebuilt_dex_def case_prod_beta
  by (simp del: write_all.simps
      add: write_minimal_dex_placeholder_def files_write_checked_other
        files_subprocess_run_other files_write_all_other
      split: option.split status.split fdata.split)

lemma files_create_minimal_dex_final:
  "files (snd (create_minimal_dex e package_name app_name s)) FinalApk = files s FinalApk"
  unfolding create_minimal_dex_def case_prod_beta
  by (simp add: files_create_prebuilt_dex_final files_write_checked_other
      files_subprocess_run_other split: option.split status.split)

lemma files_create_resources_final:
  "files (snd (create_resources e package_name app_name s)) FinalApk = files s FinalApk"
  unfolding create_resources_def case_prod_beta
  by (simp del: write_all.simps
      add: files_subprocess_run_other files_write_all_other
      split: option.split status.split sum.split)

lemma find_android_jar_no_exception:
  assumes "\<forall>op. op \<noteq> WriteFile FinalApk \<longrightarrow> \<not> os_error e op"
  shows "\<exists>r. find_android_jar e = Inr r"
proof -
  have sc: "\<And>dir err. scan_platforms e dir \<noteq> Inl err"
    using assms by (simp add: scan_platforms_no_exception)
  have h: "\<exists>r. find_in_android_home e = Inr r"
    unfolding find_in_android_home_def
    using sc by (auto split: option.split sum.split)
  have p: "\<exists>r. find_in_sdk_platforms e = Inr r"
    unfolding find_in_sdk_platforms_def
    using sc h by (auto split: option.split sum.split)
  show ?thesis
    unfolding find_android_jar_def using p by (auto split: option.split)
qed

lemma create_resources_no_tools:
  assumes "\<forall>c fs. run e c fs = (Raised, None)"
      and "\<forall>op. op \<noteq> WriteFile FinalApk \<longrightarrow> \<not> os_error e op"
  shows "fst (create_resources e package_name app_name s) = Inr None"
proof -
  obtain r where r: "find_android_jar e = Inr r"
    using find_android_jar_no_exception [OF assms(2)] by blast
  show ?thesis
    unfolding create_resources_def case_prod_beta
    by (simp del: write_all.simps
        add: write_all_writable assms r fst_subprocess_run split: option.split)
qed

lemma build_apk_structure_no_resources:
  assumes "files s (Work ClassesDex) = Some dex"
      and "\<not> os_error e (WriteFile (Work UnsignedApk))"
  shows "build_apk_structure e package_name app_name None s =
           (None, write_file (Work UnsignedApk)
                  (Zip [(''classes.dex'', dex),
                        (''AndroidManifest.xml'',
                         Text (create_android_manifest package_name app_name))]) s)"
  by (simp add: build_apk_structure_def archive_members_def assms)

lemma sign_apk_no_tools:
  assumes "\<forall>c fs. run e c fs = (Raised, None)"
      and "\<forall>op. op \<noteq> WriteFile FinalApk \<longrightarrow> \<not> os_error e op"
  shows "fst (sign_apk e s) = Inr False
         \<and> files (snd (sign_apk e s)) (Work UnsignedApk) = files s (Work UnsignedApk)
         \<and> files (snd (sign_apk e s)) FinalApk = files s FinalApk"
proof -
  have rm: "fst (remove_old_keystore e s) = None"
    using assms(2) by (simp add: remove_old_keystore_ok)
  show ?thesis
    unfolding sign_apk_def case_prod_beta
    by (simp add: assms rm fst_subprocess_run files_subprocess_run_other
        files_remove_old_keystore_other)
qed

lemma align_apk_no_tools:
  assumes "\<forall>c fs. run e c fs = (Raised, None)"
  shows "fst (align_apk e s) = False"
  by (simp add: align_apk_unfold fst_subprocess_run assms)

lemma sign_and_align_no_tools:
  assumes "\<forall>c fs. run e c fs = (Raised, None)"
      and "\<forall>op. op \<noteq> WriteFile FinalApk \<longrightarrow> \<not> os_error e op"
      and "files s (Work UnsignedApk) = Some a"
  shows "if os_error e (WriteFile FinalApk)
         then fst (sign_and_align e s) = Inl OSError
              \<and> files (snd (sign_and_align e s)) FinalApk = files s FinalApk
         else fst (sign_and_align e s) = Inr (Some FinalApk)
              \<and> files (snd (sign_and_align e s)) FinalApk = Some a"
proof -
  note sg = sign_apk_no_tools [OF assms(1) assms(2), of s]
  have u: "files (snd (sign_apk e s)) (Work UnsignedApk) = Some a"
    using assms(3) sg by simp
  have st: "align_stage e (snd (sign_apk e s))
      = write_checked e FinalApk a
          (snd (subprocess_run e Zipalign FinalApk (snd (sign_apk e s))))"
    using align_stage_failed [OF u align_apk_no_tools [OF assms(1)]] .
  have fin: "files (snd (subprocess_run e Zipalign FinalApk (snd (sign_apk e s)))) FinalApk
               = files s FinalApk"
    using sg by (simp add: files_subprocess_run_out assms(1))
  show ?thesis
    unfolding sign_and_align_def case_prod_beta
    using sg fin by (simp add: st write_checked_def files_write_file file_exists_def)
qed

lemma generate_no_tools:
  assumes "\<forall>c fs. run e c fs = (Raised, None)"
      and "\<forall>op. op \<noteq> WriteFile FinalApk \<longrightarrow> \<not> os_error e op"
  shows "if os_error e (WriteFile FinalApk)
         then fst (generate e package_name app_name s) = Inl OSError
              \<and> files (snd (generate e package_name app_name s)) FinalApk = files s FinalApk
         else fst (generate e package_name app_name s) = Inr (Some FinalApk)
              \<and> files (snd (generate e package_name app_name s)) FinalApk
                  = Some (Zip [(''classes.dex'', Blob minimal_dex_placeholder),
                               (''AndroidManifest.xml'',
                                Text (create_android_manifest package_name app_name))])"
proof -
  let ?d = "create_minimal_dex e package_name app_name (clear_work s)"
  let ?r = "create_resources e package_name app_name (snd ?d)"
  let ?a = "Zip [(''classes.dex'', Blob minimal_dex_placeholder),
                 (''AndroidManifest.xml'', Text (create_android_manifest package_name app_name))]"
  let ?s3 = "write_file (Work UnsignedApk) ?a (snd ?r)"
  note d = create_minimal_dex_no_tools [OF assms, of package_name app_name "clear_work s"]
  have d2: "files (snd ?r) (Work ClassesDex) = Some (Blob minimal_dex_placeholder)"
    using d by (simp add: create_resources_keeps_dex)
  have r: "fst ?r = Inr None" by (rule create_resources_no_tools [OF assms])
  have w: "\<not> os_error e (WriteFile (Work UnsignedApk))" using assms(2) by simp
  have b: "build_apk_structure e package_name app_name None (snd ?r) = (None, ?s3)"
    by (rule build_apk_structure_no_resources [OF d2 w])
  have unf: "generate_in_work e package_name app_name (clear_work s) = sign_and_align e ?s3"
    unfolding generate_in_work_def case_prod_beta
    using d r by (simp add: b file_exists_def)
  have u: "files ?s3 (Work UnsignedApk) = Some ?a"
    by (simp add: files_write_file)
  have f: "files ?s3 FinalApk = files s FinalApk"
    by (simp add: files_write_file files_create_resources_final
        files_create_minimal_dex_final files_clear_work_final)
  have t: "\<not> os_error e MakeTempDir" using assms(2) by simp
  from sign_and_align_no_tools [OF assms u]
  show ?thesis
    unfolding generate_def case_prod_beta
    by (simp add: t unf f files_clear_work_final split: if_splits)
qed

lemma no_tools_all_raise: "\<forall>c fs. run no_tools c fs = (Raised, None)"
  by (simp add: no_tools_def)

lemma no_tools_no_os_error: "\<forall>op. \<not> os_error no_tools op"
  by (simp add: no_tools_def)

lemma unwritable_output_all_raise: "\<forall>c fs. run unwritable_output c fs = (Raised, None)"
  by (simp add: unwritable_output_def no_tools_def)

lemma unwritable_output_os_error: "os_error unwritable_output op = (op = WriteFile FinalApk)"
  by (simp add: unwritable_output_def no_tools_def)


lemma accepted_com__app: "\<not> package_rejected e ''com..app''"
  by (simp add: package_rejected_def py_isalnum_def startswith_def endswith_def)

lemma accepted_a__b: "\<not> package_rejected e ''a..b''"
  by (simp add: package_rejected_def py_isalnum_def startswith_def endswith_def)

lemma accepted_empty: "\<not> package_rejected e []"
  by (simp add: package_rejected_def startswith_def endswith_def)


lemma files_init_generator: "files (init_generator s) = files s"
  by (simp add: init_generator_def)

lemma main_no_tools:
  assumes "\<forall>c fs. run e c fs = (Raised, None)"
      and "\<forall>op. op \<noteq> WriteFile FinalApk \<longrightarrow> \<not> os_error e op"
      and "\<not> package_rejected e package"
  shows "if os_error e (WriteFile FinalApk)
         then fst (main e name package s) = 1
              \<and> files (snd (main e name package s)) FinalApk = files s FinalApk
         else fst (main e name package s) = 0
              \<and> files (snd (main e name package s)) FinalApk
                  = Some (Zip [(''classes.dex'', Blob minimal_dex_placeholder),
                               (''AndroidManifest.xml'',
                                Text (create_android_manifest package name))])"
proof -
  have o: "\<not> os_error e MakeOutputDir" using assms(2) by simp
  note g = generate_no_tools [OF assms(1) assms(2), of package name "init_generator s"]
  show ?thesis
  proof (cases "os_error e (WriteFile FinalApk)")
    case True
    with g have "fst (generate e package name (init_generator s)) = Inl OSError"
      and "files (snd (generate e package name (init_generator s))) FinalApk = files s FinalApk"
      by (simp_all add: files_init_generator)
    with True assms(3) o show ?thesis
      by (cases "generate e package name (init_generator s)") (simp add: main_def)
  next
    case False
    with g have "fst (generate e package name (init_generator s)) = Inr (Some FinalApk)"
      and "files (snd (generate e package name (init_generator s))) FinalApk
             = Some (Zip [(''classes.dex'', Blob minimal_dex_placeholder),
                          (''AndroidManifest.xml'',
                           Text (create_android_manifest package name))])"
      by simp_all
    with False assms(3) o show ?thesis
      by (cases "generate e package name (init_generator s)") (simp add: main_def)
  qed
qed




text \<open>
  Claim C3, as amended. For a package identifier with a character that is neither
  alphanumeric nor a dot, or with a dot as its first or last character (\<open>com.app.\<close> for
  one), \<^verbatim>\<open>main\<close> exits with code 1 and leaves the state as it found it: no output
  directory is made, no command is started and no file is written.
\<close>

theorem invalid_package_exits_1:
  assumes "(\<exists>c\<in>set package. \<not> py_isalnum e c \<and> c \<noteq> CHR ''.'')
           \<or> (package \<noteq> [] \<and> (hd package = CHR ''.'' \<or> last package = CHR ''.''))"
  shows "main e name package s = (1, s)"
  using assms by (simp add: main_def package_rejected_iff)

theorem invalid_package_exits_1_witness:
  "(''com.app.'' \<noteq> [] \<and> (hd ''com.app.'' = CHR ''.'' \<or> last ''com.app.'' = CHR ''.''))
   \<and> main no_tools ''EvilDroidApp'' ''com.app.'' empty_state = (1, empty_state)"
proof -
  have h: "''com.app.'' \<noteq> [] \<and> (hd ''com.app.'' = CHR ''.'' \<or> last ''com.app.'' = CHR ''.'')"
    by simp
  from invalid_package_exits_1 [of "''com.app.''" no_tools "''EvilDroidApp''" empty_state] h
  show ?thesis by blast
qed

text \<open>
  The claim as stated fails: \<open>com..app\<close> passes both checks of \<^verbatim>\<open>main\<close>. On a system
  with no tool the run ends with exit code 0 and the archive is written at the output
  path, which held no file before.
\<close>

theorem empty_segment_not_rejected:
  "fst (main no_tools ''EvilDroidApp'' ''com..app'' empty_state) = 0
   \<and> files (snd (main no_tools ''EvilDroidApp'' ''com..app'' empty_state)) FinalApk
       = Some (Zip [(''classes.dex'', Blob minimal_dex_placeholder),
                    (''AndroidManifest.xml'',
                     Text (create_android_manifest ''com..app'' ''EvilDroidApp''))])
   \<and> files empty_state FinalApk = None"
  using main_no_tools [OF no_tools_all_raise _ accepted_com__app,
      of "''EvilDroidApp''" empty_state] no_tools_no_os_error
  by (simp add: empty_state_def)





text \<open>
  Claim C10, as amended. The checks of \<^verbatim>\<open>main\<close> let through exactly the package
  identifiers whose characters are all alphanumeric or dots and that neither begin nor end
  with a dot; the empty string and \<open>a..b\<close> pass. For every identifier that passes,
  \<^verbatim>\<open>main\<close> makes the output directory and runs the generator: the state it leaves is
  the generator's, the exit code is 0 exactly when the generator returns the artifact and
  1 exactly when an exception leaves the generator; it is 1 as well when the output
  directory cannot be made.
\<close>

theorem validation_accepts_empty_segments:
  "(\<not> package_rejected e package \<longleftrightarrow>
      (\<forall>c\<in>set package. py_isalnum e c \<or> c = CHR ''.'')
      \<and> (package = [] \<or> (hd package \<noteq> CHR ''.'' \<and> last package \<noteq> CHR ''.'')))
   \<and> \<not> package_rejected e [] \<and> \<not> package_rejected e ''a..b''
   \<and> (\<not> package_rejected e package \<longrightarrow>
        (if os_error e MakeOutputDir then main e name package s = (1, s)
         else snd (main e name package s) = snd (generate e package name (init_generator s))
              \<and> (fst (main e name package s) = 0 \<longleftrightarrow>
                   fst (generate e package name (init_generator s)) = Inr (Some FinalApk))
              \<and> (fst (main e name package s) = 1 \<longleftrightarrow>
                   (\<exists>err. fst (generate e package name (init_generator s)) = Inl err))))"
proof -
  have c: "\<not> package_rejected e package \<Longrightarrow> os_error e MakeOutputDir \<Longrightarrow>
        main e name package s = (1, s)"
    by (simp add: main_def)
  have a: "\<not> package_rejected e [] \<and> \<not> package_rejected e ''a..b''"
    using accepted_empty [of e] accepted_a__b [of e] by simp
  have m: "\<not> package_rejected e package \<longrightarrow>
        (if os_error e MakeOutputDir then main e name package s = (1, s)
         else snd (main e name package s) = snd (generate e package name (init_generator s))
              \<and> (fst (main e name package s) = 0 \<longleftrightarrow>
                   fst (generate e package name (init_generator s)) = Inr (Some FinalApk))
              \<and> (fst (main e name package s) = 1 \<longleftrightarrow>
                   (\<exists>err. fst (generate e package name (init_generator s)) = Inl err)))"
    using main_accepted [of e package name s] c by simp
  have r: "\<not> package_rejected e package \<longleftrightarrow>
      (\<forall>c\<in>set package. py_isalnum e c \<or> c = CHR ''.'')
      \<and> (package = [] \<or> (hd package \<noteq> CHR ''.'' \<and> last package \<noteq> CHR ''.''))"
    by (auto simp: package_rejected_iff)
  from r a m show ?thesis by blast
qed

theorem validation_accepts_empty_segments_witness:
  "\<not> package_rejected no_tools ''a..b''
   \<and> py_isalnum no_tools CHR ''a'' \<and> py_isalnum no_tools CHR ''b''
   \<and> \<not> os_error no_tools MakeOutputDir
   \<and> fst (main no_tools ''EvilDroidApp'' ''a..b'' empty_state) = 0
   \<and> snd (main no_tools ''EvilDroidApp'' ''a..b'' empty_state)
       = snd (generate no_tools ''a..b'' ''EvilDroidApp'' (init_generator empty_state))"
proof -
  have g: "fst (generate no_tools ''a..b'' ''EvilDroidApp'' (init_generator empty_state))
             = Inr (Some FinalApk)"
    using generate_no_tools [OF no_tools_all_raise, of "''a..b''" "''EvilDroidApp''"]
      no_tools_no_os_error by simp
  have o: "\<not> os_error no_tools MakeOutputDir" by (rule no_tools_os_error)
  have "\<not> package_rejected no_tools ''a..b''" by (rule accepted_a__b)
  with validation_accepts_empty_segments
         [of no_tools "''a..b''" "''EvilDroidApp''" empty_state] g o
  show ?thesis by (simp add: py_isalnum_def)
qed

text \<open>
  The claim as stated fails in its last part: \<open>a..b\<close> passes the checks and the
  generator runs, but with an output path that cannot be written (the application name is
  \<open>a/b\<close>) the exception of the copy leaves \<^verbatim>\<open>generate\<close> and the process ends with
  code 1.
\<close>

theorem accepted_package_can_exit_1:
  "\<not> package_rejected unwritable_output ''a..b''
   \<and> fst (generate unwritable_output ''a..b'' ''a/b'' (init_generator empty_state))
       = Inl OSError
   \<and> fst (main unwritable_output ''a/b'' ''a..b'' empty_state) = 1"
proof -
  have n': "\<forall>op. op \<noteq> WriteFile FinalApk \<longrightarrow> \<not> os_error unwritable_output op"
    by (simp add: unwritable_output_os_error)
  from generate_no_tools [OF unwritable_output_all_raise n', of "''a..b''" "''a/b''"
      "init_generator empty_state"]
    main_no_tools [OF unwritable_output_all_raise n' accepted_a__b, of "''a/b''" empty_state]
  show ?thesis by (simp add: unwritable_output_os_error accepted_a__b)
qed

subsection \<open>The Compile strategy\<close>

lemma find_android_jar_compile_ready:
  "find_android_jar compile_ready
     = Inr (Some ''/usr/lib/android-sdk/platforms/android-23/android.jar'')"
  by (simp add: find_android_jar_def known_paths_def compile_ready_def no_tools_def)

lemma compile_ready_runs:
  "run compile_ready c fs =
     (if c = Javac then (Exited 0, Some (Blob [0xCA, 0xFE]))
      else if c = D8 then (Exited 0, Some (Blob [0x64, 0x65, 0x78]))
      else (Raised, None))"
  by (simp add: compile_ready_def no_tools_def)

lemma compile_ready_which: "which compile_ready t = (t = ''d8'')"
  by (simp add: compile_ready_def no_tools_def)

lemma compile_ready_os_error: "\<not> os_error compile_ready op"
  by (simp add: compile_ready_def no_tools_def)

lemma compile_ready_no_apktool:
  "find (path_exists compile_ready) (possible_apktool_paths compile_ready) = None"
  by (simp add: possible_apktool_paths_def compile_ready_def no_tools_def)

lemma compile_java_to_dex_compile_ready:
  "fst (compile_java_to_dex compile_ready (clear_work empty_state))
     = Inr (Some (Work ClassesDex))
   \<and> files (snd (compile_java_to_dex compile_ready (clear_work empty_state))) (Work ClassesDex)
       = Some (Blob [0x64, 0x65, 0x78])
   \<and> calls (snd (compile_java_to_dex compile_ready (clear_work empty_state))) = [Javac, D8]"
  by (simp add: compile_java_to_dex_def find_android_jar_compile_ready d8_convert_def
      subprocess_run_def compile_ready_runs compile_ready_which compile_ready_os_error
      file_exists_def clear_work_def empty_state_def)

lemma create_minimal_dex_compile_ready:
  "fst (create_minimal_dex compile_ready p n s) = None
   \<and> files (snd (create_minimal_dex compile_ready p n s)) (Work ClassesDex)
       = Some (Blob minimal_dex_placeholder)
   \<and> calls (snd (create_minimal_dex compile_ready p n s)) = calls s"
  by (simp add: create_minimal_dex_def create_prebuilt_dex_def compile_ready_which
      compile_ready_no_apktool write_minimal_dex_placeholder_def write_checked_def
      compile_ready_os_error write_file_def)

lemma compile_calls_write_file [simp]: "compile_calls (write_file l d s) = compile_calls s"
  by (simp add: compile_calls_def write_file_def)

lemma compile_calls_write_checked [simp]:
  "compile_calls (snd (write_checked e l d s)) = compile_calls s"
  by (simp add: write_checked_def)

lemma compile_calls_write_all [simp]:
  "compile_calls (snd (write_all e ws s)) = compile_calls s"
  by (simp add: compile_calls_def calls_write_all)

lemma compile_calls_clear_work [simp]: "compile_calls (clear_work s) = compile_calls s"
  by (simp add: compile_calls_def clear_work_def)

lemma compile_calls_remove_old_keystore [simp]:
  "compile_calls (snd (remove_old_keystore e s)) = compile_calls s"
  by (simp add: compile_calls_def calls_remove_old_keystore)

lemma compile_calls_subprocess_run [simp]:
  "compile_calls (snd (subprocess_run e c out s)) =
     (if c = Javac \<or> c = D8 \<or> c = Dx then compile_calls s @ [c] else compile_calls s)"
  by (simp add: compile_calls_def calls_subprocess_run)

lemma compile_calls_create_prebuilt_dex [simp]:
  "compile_calls (snd (create_prebuilt_dex e p n s)) = compile_calls s"
  unfolding create_prebuilt_dex_def case_prod_beta
  by (simp del: write_all.simps add: write_minimal_dex_placeholder_def
      split: option.split status.split fdata.split)

lemma compile_calls_create_minimal_dex [simp]:
  "compile_calls (snd (create_minimal_dex e p n s)) = compile_calls s"
  unfolding create_minimal_dex_def case_prod_beta
  by (simp split: option.split status.split)

lemma compile_calls_create_resources [simp]:
  "compile_calls (snd (create_resources e p n s)) = compile_calls s"
  unfolding create_resources_def case_prod_beta
  by (simp del: write_all.simps split: option.split status.split sum.split)

lemma compile_calls_build_apk_structure [simp]:
  "compile_calls (snd (build_apk_structure e p n r s)) = compile_calls s"
  by (simp add: build_apk_structure_def split: option.split sum.split)

lemma compile_calls_sign_apk [simp]: "compile_calls (snd (sign_apk e s)) = compile_calls s"
  unfolding sign_apk_def case_prod_beta
  by (simp split: option.split status.split)

lemma compile_calls_align_stage [simp]:
  "compile_calls (snd (align_stage e s)) = compile_calls s"
  by (simp add: align_stage_unfold shutil_copy_def split: option.split)

lemma compile_calls_sign_and_align [simp]:
  "compile_calls (snd (sign_and_align e s)) = compile_calls s"
  unfolding sign_and_align_def case_prod_beta
  by (simp split: option.split sum.split)

lemma compile_calls_generate_in_work:
  "compile_calls (snd (generate_in_work e p n s)) = compile_calls s"
  unfolding generate_in_work_def case_prod_beta
  by (simp split: option.split sum.split)

lemma compile_calls_generate:
  "compile_calls (snd (generate e p n s)) = compile_calls s"
  unfolding generate_def case_prod_beta
  by (simp add: compile_calls_generate_in_work)

lemma sign_and_align_compile_ready:
  assumes "files s (Work UnsignedApk) = Some a"
  shows "fst (sign_and_align compile_ready s) = Inr (Some FinalApk)
         \<and> files (snd (sign_and_align compile_ready s)) FinalApk = Some a
         \<and> calls (snd (sign_and_align compile_ready s)) = calls s @ [Keytool, Zipalign]"
  using assms
  by (simp add: sign_and_align_def align_stage_def align_apk_def sign_apk_def
      shutil_copy_def write_checked_def subprocess_run_def compile_ready_runs
      compile_ready_os_error remove_old_keystore_def unlink_def write_file_def
      file_exists_def)

lemma create_resources_compile_ready:
  "fst (create_resources compile_ready p n s) = Inr None
   \<and> calls (snd (create_resources compile_ready p n s)) = calls s @ [Aapt]"
  by (simp add: create_resources_def write_checked_def compile_ready_os_error
      find_android_jar_compile_ready subprocess_run_def compile_ready_runs write_file_def)

lemma generate_compile_ready:
  "fst (generate compile_ready p n empty_state) = Inr (Some FinalApk)
   \<and> files (snd (generate compile_ready p n empty_state)) FinalApk
       = Some (Zip [(''classes.dex'', Blob minimal_dex_placeholder),
                    (''AndroidManifest.xml'', Text (create_android_manifest p n))])
   \<and> calls (snd (generate compile_ready p n empty_state)) = [Aapt, Keytool, Zipalign]"
proof -
  let ?d = "create_minimal_dex compile_ready p n (clear_work empty_state)"
  let ?r = "create_resources compile_ready p n (snd ?d)"
  let ?a = "Zip [(''classes.dex'', Blob minimal_dex_placeholder),
                 (''AndroidManifest.xml'', Text (create_android_manifest p n))]"
  let ?s3 = "write_file (Work UnsignedApk) ?a (snd ?r)"
  have d0: "fst ?d = None"
    and d1: "files (snd ?d) (Work ClassesDex) = Some (Blob minimal_dex_placeholder)"
    and c1: "calls (snd ?d) = []"
    by (simp_all add: create_minimal_dex_compile_ready clear_work_def empty_state_def)
  have d2: "files (snd ?r) (Work ClassesDex) = Some (Blob minimal_dex_placeholder)"
    using d1 by (simp add: create_resources_keeps_dex)
  have r: "fst ?r = Inr None" and c2: "calls (snd ?r) = [Aapt]"
    by (simp_all add: create_resources_compile_ready c1)
  have b: "build_apk_structure compile_ready p n None (snd ?r) = (None, ?s3)"
    by (rule build_apk_structure_no_resources [OF d2 compile_ready_os_error])
  have unf: "generate_in_work compile_ready p n (clear_work empty_state)
               = sign_and_align compile_ready ?s3"
    unfolding generate_in_work_def case_prod_beta
    using d0 d1 r by (simp add: b file_exists_def)
  have "files ?s3 (Work UnsignedApk) = Some ?a"
    by (simp add: files_write_file)
  from sign_and_align_compile_ready [OF this]
  show ?thesis
    unfolding generate_def case_prod_beta
    by (simp add: compile_ready_os_error unf files_clear_work_final calls_clear_work
        calls_write_file c2)
qed

text \<open>
  Claim C4. The claim has the Compile strategy attempted first. The code does not attempt
  it: \<^verbatim>\<open>generate\<close> calls \<^verbatim>\<open>_create_minimal_dex\<close>, and nothing calls
  \<^verbatim>\<open>_compile_java_to_dex\<close>. On a system where the Compile strategy returns a bytecode file
  (the platform archive is installed, \<^verbatim>\<open>javac\<close> and \<^verbatim>\<open>d8\<close> work, there is no \<^verbatim>\<open>smali\<close> and
  no \<^verbatim>\<open>apktool.jar\<close>), \<^verbatim>\<open>generate\<close> starts \<^verbatim>\<open>aapt\<close>, \<^verbatim>\<open>keytool\<close> and \<^verbatim>\<open>zipalign\<close> only and
  ships the placeholder; and on every system \<^verbatim>\<open>generate\<close> starts none of \<^verbatim>\<open>javac\<close>,
  \<^verbatim>\<open>d8\<close> and \<^verbatim>\<open>dx\<close>.
\<close>

theorem compile_strategy_never_attempted:
  "fst (compile_java_to_dex compile_ready (clear_work empty_state))
     = Inr (Some (Work ClassesDex))
   \<and> files (snd (compile_java_to_dex compile_ready (clear_work empty_state))) (Work ClassesDex)
       = Some (Blob [0x64, 0x65, 0x78])
   \<and> calls (snd (generate compile_ready ''com.evildroid.app'' ''EvilDroidApp'' empty_state))
       = [Aapt, Keytool, Zipalign]
   \<and> files (snd (generate compile_ready ''com.evildroid.app'' ''EvilDroidApp'' empty_state))
         FinalApk
       = Some (Zip [(''classes.dex'', Blob minimal_dex_placeholder),
                    (''AndroidManifest.xml'',
                     Text (create_android_manifest ''com.evildroid.app'' ''EvilDroidApp''))])
   \<and> compile_calls (snd (generate e package_name app_name s)) = compile_calls s"
  using compile_java_to_dex_compile_ready
    generate_compile_ready [of "''com.evildroid.app''" "''EvilDroidApp''"]
    compile_calls_generate [of e package_name app_name s]
  by simp

end
